theory Spec2Isabelle
  imports Complex_Main
begin

section \<open>The SharePoint audit agent: \<^verbatim>\<open>agent/python/audit_agent.py\<close>\<close>

text \<open>
  A shallow embedding of \<^verbatim>\<open>analyze\<close> and \<^verbatim>\<open>main\<close>. Python values are
  a datatype, exceptions are the left summand of a sum type, the external
  collaborators (PowerShell, the file system, the clock, the optional
  \<^verbatim>\<open>markdown\<close> package) are the fields of a record \<open>world\<close>, and what
  \<^verbatim>\<open>main\<close> does to the outside is a list of events in program order.
\<close>

subsection \<open>Python values\<close>

text \<open>
  What \<^verbatim>\<open>json.loads\<close> can return. A float is kept by its exact value (every
  finite double is a rational), with the two infinities and NaN, which
  \<^verbatim>\<open>json.loads\<close> accepts; the code only tests floats for truth, compares them
  with integer limits (Python compares an int with a float exactly) and prints them.
  A dict is the list of its items, read through \<open>map_of\<close>. The text of a
  \<open>PStr\<close> and of the report is kept as bytes: the UTF-8 encoding of its
  characters, a lone surrogate (which \<^verbatim>\<open>json.loads\<close> lets through and UTF-8
  cannot encode) as the three bytes of its generalised form. The code only joins
  such texts, tests them for emptiness and replaces \<^verbatim>\<open>&\<close> and \<^verbatim>\<open><\<close> in
  them; whether \<^verbatim>\<open>write_text\<close> can put a text in a file is the world's answer.
\<close>

datatype pyfloat = FNaN | FInf bool | FFin rat

datatype pyval =
    PNone
  | PBool bool
  | PInt int
  | PFloat pyfloat
  | PStr string
  | PList "pyval list"
  | PDict "(string \<times> pyval) list"

text \<open>
  Exceptions. \<open>External\<close> stands for whatever a collaborator raises
  (\<^verbatim>\<open>CmdError\<close>, \<^verbatim>\<open>TimeoutExpired\<close>, \<^verbatim>\<open>OSError\<close>,
  \<^verbatim>\<open>JSONDecodeError\<close>, ...), with its message.
\<close>

datatype error = AttributeError | TypeError | ValueError string | External string

text \<open>Truth value testing: \<^verbatim>\<open>bool(v)\<close>, \<^verbatim>\<open>if v\<close>, \<^verbatim>\<open>v or d\<close>.\<close>

fun truthy :: "pyval \<Rightarrow> bool" where
  "truthy PNone = False"
| "truthy (PBool b) = b"
| "truthy (PInt n) = (n \<noteq> 0)"
| "truthy (PFloat f) = (f \<noteq> FFin 0)"
| "truthy (PStr s) = (s \<noteq> [])"
| "truthy (PList xs) = (xs \<noteq> [])"
| "truthy (PDict kvs) = (kvs \<noteq> [])"

definition py_or :: "pyval \<Rightarrow> pyval \<Rightarrow> pyval" where
  "py_or v d = (if truthy v then v else d)"

text \<open>\<^verbatim>\<open>d.get(k)\<close> and \<^verbatim>\<open>d.get(k, default)\<close> on a dict.\<close>

definition dict_get :: "(string \<times> pyval) list \<Rightarrow> string \<Rightarrow> pyval \<Rightarrow> pyval" where
  "dict_get kvs k d = (case map_of kvs k of None \<Rightarrow> d | Some v \<Rightarrow> v)"

text \<open>
  \<^verbatim>\<open>v > t\<close> and \<^verbatim>\<open>v >= t\<close> for an integer \<open>t\<close>: numeric for bool, int and
  float (every comparison with NaN is false), \<^verbatim>\<open>TypeError\<close> for anything else.
\<close>

fun float_gt :: "pyfloat \<Rightarrow> int \<Rightarrow> bool" where
  "float_gt FNaN t = False"
| "float_gt (FInf pos) t = pos"
| "float_gt (FFin q) t = (of_int t < q)"

fun float_ge :: "pyfloat \<Rightarrow> int \<Rightarrow> bool" where
  "float_ge FNaN t = False"
| "float_ge (FInf pos) t = pos"
| "float_ge (FFin q) t = (of_int t \<le> q)"

fun py_gt :: "pyval \<Rightarrow> int \<Rightarrow> error + bool" where
  "py_gt (PBool b) t = Inr (t < (if b then 1 else 0))"
| "py_gt (PInt n) t = Inr (t < n)"
| "py_gt (PFloat f) t = Inr (float_gt f t)"
| "py_gt v t = Inl TypeError"

fun py_ge :: "pyval \<Rightarrow> int \<Rightarrow> error + bool" where
  "py_ge (PBool b) t = Inr (t \<le> (if b then 1 else 0))"
| "py_ge (PInt n) t = Inr (t \<le> n)"
| "py_ge (PFloat f) t = Inr (float_ge f t)"
| "py_ge v t = Inl TypeError"

text \<open>\<^verbatim>\<open>str\<close> of an integer: its decimal digits, with a minus sign below zero.\<close>

definition digit :: "nat \<Rightarrow> char" where
  "digit n = ''0123456789'' ! n"

fun str_nat :: "nat \<Rightarrow> string" where
  "str_nat n = (if n < 10 then [digit n] else str_nat (n div 10) @ [digit (n mod 10)])"

declare str_nat.simps [simp del]

definition str_int :: "int \<Rightarrow> string" where
  "str_int i = (if i < 0 then CHR ''-'' # str_nat (nat (- i)) else str_nat (nat i))"

definition str_bool :: "bool \<Rightarrow> string" where
  "str_bool b = (if b then ''True'' else ''False'')"

text \<open>
  What an f-string puts for \<^verbatim>\<open>{v}\<close>. The \<^verbatim>\<open>repr\<close> of a float, a list or a
  dict is not modelled: it is the parameter \<open>other\<close>.
\<close>

fun format_value :: "(pyval \<Rightarrow> string) \<Rightarrow> pyval \<Rightarrow> string" where
  "format_value other PNone = ''None''"
| "format_value other (PBool b) = str_bool b"
| "format_value other (PInt n) = str_int n"
| "format_value other (PStr s) = s"
| "format_value other v = other v"

subsection \<open>The outside world\<close>

text \<open>
  A row of \<^verbatim>\<open>csv.DictReader\<close>: column name to cell text. A cell that a short
  row leaves out (\<^verbatim>\<open>restval\<close>, \<^verbatim>\<open>None\<close>) and a column that does not
  exist both read as \<^verbatim>\<open>None\<close> through \<^verbatim>\<open>row.get\<close>: the key is not in
  the map.
\<close>

type_synonym row = "string \<rightharpoonup> string"

text \<open>
  Everything the program asks of its environment. Each field is the outcome of one
  kind of call, as a function of the call's arguments:
  \<^item> \<open>environ\<close>: \<^verbatim>\<open>os.environ.get\<close>;
  \<^item> \<open>ts\<close>: the time stamp \<^verbatim>\<open>ts()\<close> that names the run directory;
  \<^item> \<open>read_csv\<close>: the rows \<^verbatim>\<open>csv.DictReader\<close> yields for a file, or the error
    of opening or decoding it;
  \<^item> \<open>grant_ps\<close> (site, admin URL) and \<open>audit_ps\<close> (site, internal domains,
    path of the JSON artifact): the error \<^verbatim>\<open>run\<close> raises for the PowerShell command, if any
    (\<^verbatim>\<open>CmdError\<close> on a non-zero exit, a timeout, a missing executable);
  \<^item> \<open>load_json\<close>: \<^verbatim>\<open>json.loads(Path(p).read_text(encoding="utf-8"))\<close>, the
    parsed artifact or the error of reading or parsing it;
  \<^item> \<open>now_iso\<close>: \<^verbatim>\<open>datetime.now().isoformat(timespec='seconds')\<close> while the
    artifact at the given path is analysed;
  \<^item> \<open>markdown_markdown\<close>: the optional \<^verbatim>\<open>markdown\<close> package, \<open>None\<close> when
    the import or the rendering raises;
  \<^item> \<open>repr_other\<close>: \<^verbatim>\<open>str\<close> of a float, a list or a dict;
  \<^item> \<open>mkdir_err\<close>: the error \<^verbatim>\<open>Path.mkdir(parents=True, exist_ok=True)\<close>
    raises for a path, if any (a name that is too long, no permission, a full disk);
  \<^item> \<open>write_err\<close> (path, text): the error \<^verbatim>\<open>Path.write_text\<close> raises, if any
    (a text that cannot be encoded, a full disk).
\<close>

record world =
  environ :: "string \<Rightarrow> string option"
  ts :: string
  read_csv :: "string \<Rightarrow> error + row list"
  grant_ps :: "string \<Rightarrow> string \<Rightarrow> error option"
  audit_ps :: "string \<Rightarrow> string list \<Rightarrow> string \<Rightarrow> error option"
  load_json :: "string \<Rightarrow> error + pyval"
  now_iso :: "string \<Rightarrow> string"
  markdown_markdown :: "string \<Rightarrow> string option"
  repr_other :: "pyval \<Rightarrow> string"
  mkdir_err :: "string \<Rightarrow> error option"
  write_err :: "string \<Rightarrow> string \<Rightarrow> error option"

subsection \<open>Metrics Normalizer (lines 93--102 of \<^verbatim>\<open>analyze\<close>)\<close>

record counts =
  unique_items :: pyval
  external_identities :: pyval
  direct_web_assignments :: pyval
  groups_without_owner :: pyval
  anyone_or_everyone :: bool
  external_owner :: bool

text \<open>
  \<^verbatim>\<open>metrics = data.get("metrics", {})\<close> and the six reads of \<^verbatim>\<open>metrics\<close>.
  Only a dict has \<^verbatim>\<open>.get\<close>: on any other value the attribute lookup raises
  \<^verbatim>\<open>AttributeError\<close>.
\<close>

definition counts_of_metrics :: "(string \<times> pyval) list \<Rightarrow> counts" where
  "counts_of_metrics metrics =
     \<lparr> unique_items = py_or (dict_get metrics ''itemsWithUniquePermissions'' PNone) (PInt 0),
       external_identities = py_or (dict_get metrics ''externalUsers'' PNone) (PInt 0),
       direct_web_assignments = py_or (dict_get metrics ''webDirectAssignments'' PNone) (PInt 0),
       groups_without_owner = py_or (dict_get metrics ''orphanedGroups'' PNone) (PInt 0),
       anyone_or_everyone = truthy (dict_get metrics ''anyoneOrEveryoneAtWeb'' PNone),
       external_owner = truthy (dict_get metrics ''externalOwnerPresent'' PNone) \<rparr>"

definition normalize_artifact :: "pyval \<Rightarrow> error + counts" where
  "normalize_artifact data =
     (case data of
        PDict d \<Rightarrow>
          (case dict_get d ''metrics'' (PDict []) of
             PDict metrics \<Rightarrow> Inr (counts_of_metrics metrics)
           | _ \<Rightarrow> Inl AttributeError)
      | _ \<Rightarrow> Inl AttributeError)"

subsection \<open>Risk Classifier (lines 84--88 and 103--115)\<close>

record thresholds =
  critical_anyone_or_everyone :: bool
  critical_external_owner :: bool
  high_direct_web_perms :: bool
  high_unique_items_gt :: int
  medium_external_item_identities_gte :: int
  medium_group_without_owner :: bool

definition DEFAULT_THRESHOLDS :: thresholds where
  "DEFAULT_THRESHOLDS =
     \<lparr> critical_anyone_or_everyone = True, critical_external_owner = True,
       high_direct_web_perms = True, high_unique_items_gt = 250,
       medium_external_item_identities_gte = 10, medium_group_without_owner = True \<rparr>"

datatype severity = Critical | High | Medium

type_synonym finding = "severity \<times> string"

text \<open>
  The six rules, in the order of the source. Each \<^verbatim>\<open>if\<close> either appends one
  finding or nothing; the two comparisons raise \<^verbatim>\<open>TypeError\<close> on a count that
  is not a number, and then \<^verbatim>\<open>analyze\<close> raises with no findings returned.
\<close>

definition classify :: "world \<Rightarrow> thresholds \<Rightarrow> counts \<Rightarrow> error + finding list" where
  "classify w t c =
     (let f1 = (if critical_anyone_or_everyone t \<and> anyone_or_everyone c
                then [(Critical, [CHR 0x27] @ ''Anyone/Everyone'' @ [CHR 0x27]
                                   @ '' access detected at web/site scope.'')]
                else []);
          f2 = (if critical_external_owner t \<and> external_owner c
                then [(Critical, ''Guest/external user with Owner role detected.'')]
                else []);
          f3 = (if high_direct_web_perms t \<and> truthy (direct_web_assignments c)
                then [(High, ''Direct user permissions at web scope: ''
                               @ format_value (repr_other w) (direct_web_assignments c))]
                else [])
      in case py_gt (unique_items c) (high_unique_items_gt t) of
           Inl e \<Rightarrow> Inl e
         | Inr b4 \<Rightarrow>
             (case py_ge (external_identities c) (medium_external_item_identities_gte t) of
                Inl e \<Rightarrow> Inl e
              | Inr b5 \<Rightarrow>
                  Inr (f1 @ f2 @ f3
                       @ (if b4
                          then [(High, ''Items with unique permissions: ''
                                         @ format_value (repr_other w) (unique_items c))]
                          else [])
                       @ (if b5
                          then [(Medium, ''External identities with item-level access: ''
                                           @ format_value (repr_other w) (external_identities c))]
                          else [])
                       @ (if medium_group_without_owner t \<and> truthy (groups_without_owner c)
                          then [(Medium, ''SharePoint groups without owners: ''
                                           @ format_value (repr_other w) (groups_without_owner c))]
                          else []))))"

subsection \<open>Report Composer (lines 90 and 117--146)\<close>

definition str_severity :: "severity \<Rightarrow> string" where
  "str_severity lvl = (case lvl of Critical \<Rightarrow> ''Critical'' | High \<Rightarrow> ''High'' | Medium \<Rightarrow> ''Medium'')"

text \<open>The em dash U+2014 of the source, in UTF-8.\<close>

definition em_dash :: string where
  "em_dash = [CHR 0xE2, CHR 0x80, CHR 0x94]"

definition finding_line :: "finding \<Rightarrow> string" where
  "finding_line f = ''- **'' @ str_severity (fst f) @ ''** '' @ em_dash @ '' '' @ snd f"

definition risk_lines :: "finding list \<Rightarrow> string list" where
  "risk_lines findings =
     (if findings \<noteq> [] then map finding_line findings
      else [''- No risks met the configured thresholds.''])"

definition report_lines :: "world \<Rightarrow> string \<Rightarrow> counts \<Rightarrow> finding list \<Rightarrow> string list" where
  "report_lines w json_path c findings =
     [ ''# SharePoint Audit '' @ em_dash @ '' Findings & Recommendations'', [],
       ''_Generated: '' @ now_iso w json_path @ ''_'', [],
       ''## Summary'', [],
       ''- Items with unique permissions: **'' @ format_value (repr_other w) (unique_items c) @ ''**'',
       ''- External identities (item-level): **'' @ format_value (repr_other w) (external_identities c) @ ''**'',
       ''- Direct web assignments: **'' @ format_value (repr_other w) (direct_web_assignments c) @ ''**'',
       ''- Groups without owners: **'' @ format_value (repr_other w) (groups_without_owner c) @ ''**'',
       ''- Anyone/Everyone at web/site: **'' @ str_bool (anyone_or_everyone c) @ ''**'',
       ''- External Owner present: **'' @ str_bool (external_owner c) @ ''**'', [],
       ''## Risk Ratings'', [] ]
     @ risk_lines findings
     @ [ [], ''## Recommendations (PnP Snippets)'', [],
         ''- Review anonymous sharing & site sharing settings.'',
         ''- Remove direct web permissions where unjustified.'',
         ''- Reduce item-level unique permissions where possible.'',
         ''- Ensure each SharePoint group has an owner.'', [], ''---'',
         ''_PII notice: contains user emails and access data. Handle per policy._'' ]"

text \<open>\<^verbatim>\<open>"\n".join(lines)\<close>\<close>

fun join_lines :: "string list \<Rightarrow> string" where
  "join_lines [] = []"
| "join_lines [l] = l"
| "join_lines (l # ls) = l @ CHR 0x0A # join_lines ls"

text \<open>\<^verbatim>\<open>s.replace(old, new)\<close> for a pattern \<open>old\<close> of one character.\<close>

definition replace_char :: "char \<Rightarrow> string \<Rightarrow> string \<Rightarrow> string" where
  "replace_char old new s = concat (map (\<lambda>x. if x = old then new else [x]) s)"

definition CSS :: string where
  "CSS = ''body{font-family:system-ui,Segoe UI,Roboto,Helvetica,Arial,sans-serif;max-width:960px;margin:2rem auto;padding:0 1rem} h1{font-size:1.8rem} h2{font-size:1.3rem;margin-top:2rem} code,pre{background:#f6f8fa;border:1px solid #eaecef;border-radius:6px;padding:.2rem .4rem}''"

definition html_body :: "world \<Rightarrow> string \<Rightarrow> string" where
  "html_body w md =
     (case markdown_markdown w md of
        Some body \<Rightarrow> body
      | None \<Rightarrow> ''<pre>'' @ replace_char CHR ''<'' ''&lt;'' (replace_char CHR ''&'' ''&amp;'' md) @ ''</pre>'')"

definition html_page :: "world \<Rightarrow> string \<Rightarrow> string" where
  "html_page w md =
     ''<!doctype html><html><head><meta charset='' @ [CHR 0x27] @ ''utf-8'' @ [CHR 0x27]
     @ ''><title>SharePoint Audit</title><style>'' @ CSS @ ''</style></head><body>''
     @ html_body w md @ ''</body></html>''"

subsection \<open>\<^verbatim>\<open>analyze\<close> (lines 92--146)\<close>

text \<open>
  The argument \<open>internal_domains_supplied\<close> is in the signature and is never read
  by the body.
\<close>

definition analyze :: "world \<Rightarrow> string \<Rightarrow> thresholds \<Rightarrow> bool \<Rightarrow> error + (string \<times> string)" where
  "analyze w json_path t internal_domains_supplied =
     (case load_json w json_path of
        Inl e \<Rightarrow> Inl e
      | Inr data \<Rightarrow>
          (case normalize_artifact data of
             Inl e \<Rightarrow> Inl e
           | Inr c \<Rightarrow>
               (case classify w t c of
                  Inl e \<Rightarrow> Inl e
                | Inr findings \<Rightarrow>
                    (let md = join_lines (report_lines w json_path c findings)
                     in Inr (md, html_page w md)))))"

subsection \<open>Site identifiers (lines 40--45, 177 and 181)\<close>

text \<open>
  A site identifier is a \<open>string\<close> whose characters are code points (those below
  256). \<^verbatim>\<open>str.strip()\<close> removes the characters for which \<^verbatim>\<open>str.isspace\<close>
  holds from both ends; \<^verbatim>\<open>strip("/")\<close> removes slashes from both ends.
\<close>

definition is_space :: "char \<Rightarrow> bool" where
  "is_space c =
     (let n = (of_char c :: nat)
      in (9 \<le> n \<and> n \<le> 13) \<or> (28 \<le> n \<and> n \<le> 32) \<or> n = 133 \<or> n = 160)"

definition strip_chars :: "(char \<Rightarrow> bool) \<Rightarrow> string \<Rightarrow> string" where
  "strip_chars p s = rev (dropWhile p (rev (dropWhile p s)))"

definition strip :: "string \<Rightarrow> string" where
  "strip s = strip_chars is_space s"

definition strip_slash :: "string \<Rightarrow> string" where
  "strip_slash s = strip_chars (\<lambda>c. c = CHR ''/'') s"

text \<open>The character class \<^verbatim>\<open>[a-zA-Z0-9._-]\<close> of line 181.\<close>

definition allowed :: "char \<Rightarrow> bool" where
  "allowed c =
     (let n = (of_char c :: nat)
      in (97 \<le> n \<and> n \<le> 122) \<or> (65 \<le> n \<and> n \<le> 90) \<or> (48 \<le> n \<and> n \<le> 57)
         \<or> c = CHR ''.'' \<or> c = CHR ''_'' \<or> c = CHR ''-'')"

text \<open>
  \<^verbatim>\<open>re.sub(r"[^a-zA-Z0-9._-]+", "_", s)\<close>: scanning from the left, a character of
  the class is copied; at a character outside it the greedy \<^verbatim>\<open>+\<close> takes the whole
  run of such characters, and the run is replaced by one underscore.
\<close>

function re_sub :: "string \<Rightarrow> string" where
  "re_sub [] = []"
| "re_sub (c # cs) =
     (if allowed c then c # re_sub cs
      else CHR ''_'' # re_sub (dropWhile (\<lambda>x. \<not> allowed x) cs))"
  by pat_completeness auto
termination
  by (relation "measure length") (auto simp: length_dropWhile_le less_Suc_eq_le)

definition safe_name :: "string \<Rightarrow> string" where
  "safe_name site = re_sub (strip_slash site)"

text \<open>
  The per-character rule in the words of the specification, for comparison with
  \<open>safe_name\<close>: every character outside the class becomes an underscore, at its
  place.
\<close>

definition spec_sanitize :: "string \<Rightarrow> string" where
  "spec_sanitize site = map (\<lambda>c. if allowed c then c else CHR ''_'') site"

text \<open>\<^verbatim>\<open>base / name\<close> of \<^verbatim>\<open>pathlib\<close>, for a relative \<open>name\<close>.\<close>

definition path_join :: "string \<Rightarrow> string \<Rightarrow> string" where
  "path_join base name =
     (if base \<noteq> [] \<and> last base = CHR ''/'' then base @ name else base @ ''/'' @ name)"

text \<open>
  \<^verbatim>\<open>derive_admin_url\<close>: \<^verbatim>\<open>re.match\<close> of
  \<^verbatim>\<open>https://([a-zA-Z0-9-]+)\.sharepoint\.com/\<close> at the start of the URL. The dot
  is not in the tenant's class, so the greedy group is the longest run of class
  characters.
\<close>

definition tenant_char :: "char \<Rightarrow> bool" where
  "tenant_char c =
     (let n = (of_char c :: nat)
      in (97 \<le> n \<and> n \<le> 122) \<or> (65 \<le> n \<and> n \<le> 90) \<or> (48 \<le> n \<and> n \<le> 57)
         \<or> c = CHR ''-'')"

definition derive_admin_url :: "string \<Rightarrow> error + string" where
  "derive_admin_url site_url =
     (let rest = drop 8 site_url;
          tenant = takeWhile tenant_char rest;
          after = dropWhile tenant_char rest
      in if take 8 site_url = ''https://'' \<and> tenant \<noteq> []
            \<and> take 16 after = ''.sharepoint.com/''
         then Inr (''https://'' @ tenant @ ''-admin.sharepoint.com'')
         else Inl (ValueError (''Unsupported SharePoint URL: '' @ site_url)))"

subsection \<open>The two external stages (lines 47--82)\<close>

text \<open>
  The tenant, the application id, the certificate and the tuning parameters are the
  same in every call of a run and only travel into the PowerShell text, as the list
  of internal domains does; the outcome of a command is read from the world.
\<close>

definition grant_sites_selected :: "world \<Rightarrow> string \<Rightarrow> error + unit" where
  "grant_sites_selected w site_url =
     (case derive_admin_url site_url of
        Inl e \<Rightarrow> Inl e
      | Inr admin_url \<Rightarrow>
          (case grant_ps w site_url admin_url of Some e \<Rightarrow> Inl e | None \<Rightarrow> Inr ()))"

definition run_audit_script :: "world \<Rightarrow> string \<Rightarrow> string list \<Rightarrow> string \<Rightarrow> error + string" where
  "run_audit_script w site_url internal out_dir =
     (let emit_json = path_join out_dir ''audit.json''
      in case audit_ps w site_url internal emit_json of Some e \<Rightarrow> Inl e | None \<Rightarrow> Inr emit_json)"

subsection \<open>Run Orchestrator: \<^verbatim>\<open>main\<close> (lines 148--205)\<close>

record args =
  pfx_pass_env :: string
  site_url :: "string option"
  csv :: "string option"
  internal_domains :: "string list"
  out_root :: string

datatype stage = Grant | Audit | Analyze

text \<open>
  What \<^verbatim>\<open>main\<close> does to the outside, in program order:
  \<^item> \<open>MkDir p\<close>: \<^verbatim>\<open>p.mkdir(parents=True, exist_ok=True)\<close> returned;
  \<^item> \<open>Announce st site\<close>: the line \<^verbatim>\<open>[grant] site\<close> (or \<^verbatim>\<open>[audit]\<close>,
    \<^verbatim>\<open>[analyze]\<close>) on standard output, printed as the stage starts;
  \<^item> \<open>Failed st site e\<close>: the line \<^verbatim>\<open>Grant failed for site: e\<close> (or
    \<^verbatim>\<open>Audit\<close>, \<^verbatim>\<open>Analyze\<close>) on standard error;
  \<^item> \<open>WriteText p s\<close>: \<^verbatim>\<open>p.write_text(s, encoding="utf-8")\<close> returned;
  \<^item> \<open>WriteFailed p e\<close>: \<^verbatim>\<open>p.write_text\<close> raised \<open>e\<close>; opening the file for
    writing may already have created or emptied it;
  \<^item> \<open>RunComplete d\<close>: the closing line \<^verbatim>\<open>Run complete\<close> with the run directory.
\<close>

datatype event =
    MkDir string
  | Announce stage string
  | Failed stage string error
  | WriteText string string
  | WriteFailed string error
  | RunComplete string

text \<open>How the process ends: \<^verbatim>\<open>main\<close> returns, \<^verbatim>\<open>sys.exit(msg)\<close>, or an
  exception nobody catches.\<close>

datatype exit = Returned | SysExit string | Uncaught error

text \<open>
  The two writes of lines 200--201, inside the third \<^verbatim>\<open>try\<close>: the first error
  ends the block, and what was written before it stays.
\<close>

definition write_reports :: "world \<Rightarrow> string \<Rightarrow> string \<Rightarrow> string \<Rightarrow> string \<Rightarrow> event list" where
  "write_reports w site site_dir md html =
     (case write_err w (path_join site_dir ''report.md'') md of
        Some e \<Rightarrow> [WriteFailed (path_join site_dir ''report.md'') e, Failed Analyze site e]
      | None \<Rightarrow>
          WriteText (path_join site_dir ''report.md'') md #
          (case write_err w (path_join site_dir ''report.html'') html of
             Some e \<Rightarrow> [WriteFailed (path_join site_dir ''report.html'') e, Failed Analyze site e]
           | None \<Rightarrow> [WriteText (path_join site_dir ''report.html'') html]))"

text \<open>
  The three \<^verbatim>\<open>try\<close> blocks of the loop body (lines 184--203). Every
  \<^verbatim>\<open>except Exception\<close> prints and goes on to the next site.
\<close>

definition site_stages :: "world \<Rightarrow> args \<Rightarrow> string \<Rightarrow> string \<Rightarrow> event list" where
  "site_stages w a site site_dir =
     Announce Grant site #
     (case grant_sites_selected w site of
        Inl e \<Rightarrow> [Failed Grant site e]
      | Inr _ \<Rightarrow>
          Announce Audit site #
          (case run_audit_script w site (internal_domains a) site_dir of
             Inl e \<Rightarrow> [Failed Audit site e]
           | Inr json \<Rightarrow>
               Announce Analyze site #
               (case analyze w json DEFAULT_THRESHOLDS (internal_domains a \<noteq> []) of
                  Inl e \<Rightarrow> [Failed Analyze site e]
                | Inr (md, html) \<Rightarrow> write_reports w site site_dir md html)))"

definition site_dir_of :: "string \<Rightarrow> string \<Rightarrow> string" where
  "site_dir_of run_dir site = path_join run_dir (''site-'' @ safe_name site)"

text \<open>
  The loop body (lines 181--203). \<^verbatim>\<open>site_dir.mkdir\<close> of line 182 is outside the
  \<^verbatim>\<open>try\<close> blocks: its error is the second component, and no stage runs.
\<close>

definition process_site :: "world \<Rightarrow> args \<Rightarrow> string \<Rightarrow> string \<Rightarrow> event list \<times> error option" where
  "process_site w a run_dir site =
     (case mkdir_err w (site_dir_of run_dir site) of
        Some e \<Rightarrow> ([], Some e)
      | None \<Rightarrow>
          (MkDir (site_dir_of run_dir site) # site_stages w a site (site_dir_of run_dir site),
           None))"

text \<open>
  The \<^verbatim>\<open>for\<close> loop of line 180 and the closing print of line 205. An error
  that leaves the loop body leaves the loop: the remaining sites and the closing
  print are not reached.
\<close>

fun run_sites :: "world \<Rightarrow> args \<Rightarrow> string \<Rightarrow> string list \<Rightarrow> event list \<times> error option" where
  "run_sites w a run_dir [] = ([RunComplete run_dir], None)"
| "run_sites w a run_dir (site # sites) =
     (case process_site w a run_dir site of
        (evs, Some e) \<Rightarrow> (evs, Some e)
      | (evs, None) \<Rightarrow>
          (case run_sites w a run_dir sites of (rest, r) \<Rightarrow> (evs @ rest, r)))"

text \<open>Collecting the sites (lines 171--177).\<close>

fun csv_sites :: "row list \<Rightarrow> string list" where
  "csv_sites [] = []"
| "csv_sites (r # rows) =
     (case r ''SiteUrl'' of
        None \<Rightarrow> csv_sites rows
      | Some v \<Rightarrow> (if v \<noteq> [] then strip v # csv_sites rows else csv_sites rows))"

definition sites_from_csv :: "world \<Rightarrow> args \<Rightarrow> error + string list" where
  "sites_from_csv w a =
     (case csv a of
        None \<Rightarrow> Inl TypeError
      | Some path \<Rightarrow>
          (case read_csv w path of Inl e \<Rightarrow> Inl e | Inr rows \<Rightarrow> Inr (csv_sites rows)))"

definition collect_sites :: "world \<Rightarrow> args \<Rightarrow> error + string list" where
  "collect_sites w a =
     (case site_url a of
        None \<Rightarrow> sites_from_csv w a
      | Some u \<Rightarrow> (if u \<noteq> [] then Inr [u] else sites_from_csv w a))"

definition run_dir_of :: "world \<Rightarrow> args \<Rightarrow> string" where
  "run_dir_of w a = path_join (out_root a) (ts w)"

text \<open>
  \<^verbatim>\<open>main\<close> from line 164 on. The two directories of lines 167--168 are made
  before the sites are collected.
\<close>

definition main :: "world \<Rightarrow> args \<Rightarrow> event list \<times> exit" where
  "main w a =
     (if (case environ w (pfx_pass_env a) of None \<Rightarrow> True | Some pfx_pass \<Rightarrow> pfx_pass = [])
      then ([], SysExit ''ERROR: PFX password env var not set'')
      else
        (case mkdir_err w (out_root a) of
           Some e \<Rightarrow> ([], Uncaught e)
         | None \<Rightarrow>
             (case mkdir_err w (path_join (run_dir_of w a) ''logs'') of
                Some e \<Rightarrow> ([MkDir (out_root a)], Uncaught e)
              | None \<Rightarrow>
                  (let made = [MkDir (out_root a), MkDir (path_join (run_dir_of w a) ''logs'')]
                   in case collect_sites w a of
                        Inl e \<Rightarrow> (made, Uncaught e)
                      | Inr sites \<Rightarrow>
                          (if sites = [] then (made, SysExit ''No sites provided.'')
                           else (case run_sites w a (run_dir_of w a) sites of
                                   (evs, None) \<Rightarrow> (made @ evs, Returned)
                                 | (evs, Some e) \<Rightarrow> (made @ evs, Uncaught e)))))))"

subsection \<open>Notions used to state the properties\<close>

text \<open>The six keys that \<^verbatim>\<open>analyze\<close> reads from \<^verbatim>\<open>metrics\<close>.\<close>

definition metric_keys :: "string list" where
  "metric_keys =
     [''itemsWithUniquePermissions'', ''externalUsers'', ''webDirectAssignments'',
      ''orphanedGroups'', ''anyoneOrEveryoneAtWeb'', ''externalOwnerPresent'']"

text \<open>The record of all defaults.\<close>

definition zero_counts :: counts where
  "zero_counts =
     \<lparr> unique_items = PInt 0, external_identities = PInt 0,
       direct_web_assignments = PInt 0, groups_without_owner = PInt 0,
       anyone_or_everyone = False, external_owner = False \<rparr>"

text \<open>
  The substitution of line 181, told character by character: a character of the
  class is kept; a character outside the class becomes an underscore when it opens
  a run (it is the first character, or the one before it is in the class) and
  leaves nothing otherwise.
\<close>

definition mark :: "char option \<Rightarrow> char \<Rightarrow> string" where
  "mark prev c =
     (if allowed c then [c]
      else (case prev of
              None \<Rightarrow> ''_''
            | Some p \<Rightarrow> (if allowed p then ''_'' else [])))"

definition replace_runs :: "string \<Rightarrow> string" where
  "replace_runs s = concat (map2 mark (None # map Some s) s)"

text \<open>The line feed, for texts that are written out in full.\<close>

definition nl :: string where
  "nl = [CHR 0x0A]"

text \<open>
  The plain report of the record of all defaults with no finding, written out in
  full; \<open>stamp\<close> is the clock reading.
\<close>

definition no_risk_report :: "string \<Rightarrow> string" where
  "no_risk_report stamp =
       ''# SharePoint Audit '' @ [CHR 0xE2, CHR 0x80, CHR 0x94] @ '' Findings & Recommendations'' @ nl
       @ nl
       @ ''_Generated: '' @ stamp @ ''_'' @ nl
       @ nl
       @ ''## Summary'' @ nl
       @ nl
       @ ''- Items with unique permissions: **0**'' @ nl
       @ ''- External identities (item-level): **0**'' @ nl
       @ ''- Direct web assignments: **0**'' @ nl
       @ ''- Groups without owners: **0**'' @ nl
       @ ''- Anyone/Everyone at web/site: **False**'' @ nl
       @ ''- External Owner present: **False**'' @ nl
       @ nl
       @ ''## Risk Ratings'' @ nl
       @ nl
       @ ''- No risks met the configured thresholds.'' @ nl
       @ nl
       @ ''## Recommendations (PnP Snippets)'' @ nl
       @ nl
       @ ''- Review anonymous sharing & site sharing settings.'' @ nl
       @ ''- Remove direct web permissions where unjustified.'' @ nl
       @ ''- Reduce item-level unique permissions where possible.'' @ nl
       @ ''- Ensure each SharePoint group has an owner.'' @ nl
       @ nl
       @ ''---'' @ nl
       @ ''_PII notice: contains user emails and access data. Handle per policy._''"

subsection \<open>A concrete run, for the examples\<close>

definition site_a :: string where
  "site_a = ''https://contoso.sharepoint.com/sites/a''"

definition site_b :: string where
  "site_b = ''https://contoso.sharepoint.com/sites/b''"

definition site_c :: string where
  "site_c = ''https://contoso.sharepoint.com/sites/c''"

definition demo_artifact :: pyval where
  "demo_artifact =
     PDict [(''site'', PStr ''b''),
            (''metrics'', PDict [(''itemsWithUniquePermissions'', PInt 300),
                                 (''externalUsers'', PInt 5),
                                 (''orphanedGroups'', PNone)])]"

text \<open>Three rows with a site and one row whose cell is empty.\<close>

definition demo_rows :: "row list" where
  "demo_rows =
     [[''SiteUrl'' \<mapsto> site_a], [''SiteUrl'' \<mapsto> []],
      [''SiteUrl'' \<mapsto> site_b], [''SiteUrl'' \<mapsto> site_c]]"

text \<open>
  Every grant succeeds, the audit of \<open>site_a\<close> exits with an error, every other
  audit leaves \<open>demo_artifact\<close>, the \<^verbatim>\<open>markdown\<close> package is not installed, and
  every directory and file can be written.
\<close>

definition demo_world :: world where
  "demo_world =
     \<lparr> environ = (\<lambda>k. if k = ''PFX_PASS'' then Some ''secret'' else None),
       ts = ''2026-01-01_09-00-00'',
       read_csv = (\<lambda>p. Inr demo_rows),
       grant_ps = (\<lambda>site admin. None),
       audit_ps = (\<lambda>site internal p. if site = site_a then Some (External ''exit 1'') else None),
       load_json = (\<lambda>p. Inr demo_artifact),
       now_iso = (\<lambda>p. ''2026-01-01T09:00:07''),
       markdown_markdown = (\<lambda>md. None),
       repr_other = (\<lambda>v. ''?''),
       mkdir_err = (\<lambda>p. None),
       write_err = (\<lambda>p s. None) \<rparr>"

definition demo_args :: args where
  "demo_args =
     \<lparr> pfx_pass_env = ''PFX_PASS'', site_url = None, csv = Some ''sites.csv'',
       internal_domains = [''contoso.com''], out_root = ''/out'' \<rparr>"

definition demo_run_dir :: string where
  "demo_run_dir = ''/out/2026-01-01_09-00-00''"

definition dir_a :: string where
  "dir_a = ''/out/2026-01-01_09-00-00/site-https_contoso.sharepoint.com_sites_a''"

definition dir_b :: string where
  "dir_b = ''/out/2026-01-01_09-00-00/site-https_contoso.sharepoint.com_sites_b''"

text \<open>
  The two reports of \<open>demo_artifact\<close> under the default thresholds, written out
  in full: the plain one, and the hypertext one in its fallback form.
\<close>

definition demo_report :: string where
  "demo_report =
       ''# SharePoint Audit '' @ [CHR 0xE2, CHR 0x80, CHR 0x94] @ '' Findings & Recommendations'' @ nl
       @ nl
       @ ''_Generated: '' @ ''2026-01-01T09:00:07'' @ ''_'' @ nl
       @ nl
       @ ''## Summary'' @ nl
       @ nl
       @ ''- Items with unique permissions: **300**'' @ nl
       @ ''- External identities (item-level): **5**'' @ nl
       @ ''- Direct web assignments: **0**'' @ nl
       @ ''- Groups without owners: **0**'' @ nl
       @ ''- Anyone/Everyone at web/site: **False**'' @ nl
       @ ''- External Owner present: **False**'' @ nl
       @ nl
       @ ''## Risk Ratings'' @ nl
       @ nl
       @ ''- **High** '' @ [CHR 0xE2, CHR 0x80, CHR 0x94] @ '' Items with unique permissions: 300'' @ nl
       @ nl
       @ ''## Recommendations (PnP Snippets)'' @ nl
       @ nl
       @ ''- Review anonymous sharing & site sharing settings.'' @ nl
       @ ''- Remove direct web permissions where unjustified.'' @ nl
       @ ''- Reduce item-level unique permissions where possible.'' @ nl
       @ ''- Ensure each SharePoint group has an owner.'' @ nl
       @ nl
       @ ''---'' @ nl
       @ ''_PII notice: contains user emails and access data. Handle per policy._''"

definition demo_html :: string where
  "demo_html =
       ''<!doctype html><html><head><meta charset='' @ [CHR 0x27] @ ''utf-8'' @ [CHR 0x27]
       @ ''><title>SharePoint Audit</title><style>body{font-family:system-ui,Segoe UI,Roboto,Helvetica,Arial,sans-serif;max-width:960px;margin:2rem auto;padding:0 1rem} h1{font-size:1.8rem} h2{font-size:1.3rem;margin-top:2rem} code,pre{background:#f6f8fa;border:1px solid #eaecef;border-radius:6px;padding:.2rem .4rem}</style></head><body>''
       @ ''<pre>''
       @ (''# SharePoint Audit '' @ [CHR 0xE2, CHR 0x80, CHR 0x94] @ '' Findings &amp; Recommendations'' @ nl
          @ nl
          @ ''_Generated: '' @ ''2026-01-01T09:00:07'' @ ''_'' @ nl
          @ nl
          @ ''## Summary'' @ nl
          @ nl
          @ ''- Items with unique permissions: **300**'' @ nl
          @ ''- External identities (item-level): **5**'' @ nl
          @ ''- Direct web assignments: **0**'' @ nl
          @ ''- Groups without owners: **0**'' @ nl
          @ ''- Anyone/Everyone at web/site: **False**'' @ nl
          @ ''- External Owner present: **False**'' @ nl
          @ nl
          @ ''## Risk Ratings'' @ nl
          @ nl
          @ ''- **High** '' @ [CHR 0xE2, CHR 0x80, CHR 0x94] @ '' Items with unique permissions: 300'' @ nl
          @ nl
          @ ''## Recommendations (PnP Snippets)'' @ nl
          @ nl
          @ ''- Review anonymous sharing &amp; site sharing settings.'' @ nl
          @ ''- Remove direct web permissions where unjustified.'' @ nl
          @ ''- Reduce item-level unique permissions where possible.'' @ nl
          @ ''- Ensure each SharePoint group has an owner.'' @ nl
          @ nl
          @ ''---'' @ nl
          @ ''_PII notice: contains user emails and access data. Handle per policy._'')
       @ ''</pre></body></html>''"

text \<open>The hypertext report, in its fallback form, of an artifact with no field.\<close>

definition bare_html :: string where
  "bare_html =
       ''<!doctype html><html><head><meta charset='' @ [CHR 0x27] @ ''utf-8'' @ [CHR 0x27]
       @ ''><title>SharePoint Audit</title><style>body{font-family:system-ui,Segoe UI,Roboto,Helvetica,Arial,sans-serif;max-width:960px;margin:2rem auto;padding:0 1rem} h1{font-size:1.8rem} h2{font-size:1.3rem;margin-top:2rem} code,pre{background:#f6f8fa;border:1px solid #eaecef;border-radius:6px;padding:.2rem .4rem}</style></head><body>''
       @ ''<pre>''
       @ (''# SharePoint Audit '' @ [CHR 0xE2, CHR 0x80, CHR 0x94] @ '' Findings &amp; Recommendations'' @ nl
          @ nl
          @ ''_Generated: '' @ ''2026-01-01T09:00:07'' @ ''_'' @ nl
          @ nl
          @ ''## Summary'' @ nl
          @ nl
          @ ''- Items with unique permissions: **0**'' @ nl
          @ ''- External identities (item-level): **0**'' @ nl
          @ ''- Direct web assignments: **0**'' @ nl
          @ ''- Groups without owners: **0**'' @ nl
          @ ''- Anyone/Everyone at web/site: **False**'' @ nl
          @ ''- External Owner present: **False**'' @ nl
          @ nl
          @ ''## Risk Ratings'' @ nl
          @ nl
          @ ''- No risks met the configured thresholds.'' @ nl
          @ nl
          @ ''## Recommendations (PnP Snippets)'' @ nl
          @ nl
          @ ''- Review anonymous sharing &amp; site sharing settings.'' @ nl
          @ ''- Remove direct web permissions where unjustified.'' @ nl
          @ ''- Reduce item-level unique permissions where possible.'' @ nl
          @ ''- Ensure each SharePoint group has an owner.'' @ nl
          @ nl
          @ ''---'' @ nl
          @ ''_PII notice: contains user emails and access data. Handle per policy._'')
       @ ''</pre></body></html>''"

text \<open>An artifact whose \<^verbatim>\<open>metrics\<close> object has none of the six fields.\<close>

definition bare_world :: world where
  "bare_world =
     demo_world \<lparr> load_json := (\<lambda>p. Inr (PDict [(''metrics'', PDict [(''scanned'', PInt 12)])])) \<rparr>"

text \<open>An artifact whose \<^verbatim>\<open>metrics\<close> member is \<^verbatim>\<open>null\<close>, and one that is not there.\<close>

definition null_world :: world where
  "null_world = demo_world \<lparr> load_json := (\<lambda>p. Inr (PDict [(''metrics'', PNone)])) \<rparr>"

definition absent_world :: world where
  "absent_world = demo_world \<lparr> load_json := (\<lambda>p. Inl (External ''No such file or directory'')) \<rparr>"

text \<open>A site file whose only row holds three spaces.\<close>

definition spaces_world :: world where
  "spaces_world = demo_world \<lparr> read_csv := (\<lambda>p. Inr [[''SiteUrl'' \<mapsto> ''   '']]) \<rparr>"

text \<open>A run in which the directory of \<open>site_b\<close> cannot be created.\<close>

definition no_dir_world :: world where
  "no_dir_world =
     demo_world \<lparr> mkdir_err := (\<lambda>p. if p = dir_b then Some (External ''No space left on device'') else None) \<rparr>"

text \<open>A run in which the hypertext report of \<open>site_b\<close> cannot be written.\<close>

definition no_html_world :: world where
  "no_html_world =
     demo_world \<lparr> write_err := (\<lambda>p s. if p = dir_b @ ''/report.html''
                                       then Some (External ''No space left on device'') else None) \<rparr>"

section \<open>Properties\<close>

subsection \<open>Metrics Normalizer\<close>

lemma counts_of_metrics_defaults:
  assumes "\<forall>k \<in> set metric_keys. map_of metrics k = None \<or> map_of metrics k = Some PNone"
  shows "counts_of_metrics metrics = zero_counts"
proof -
  have "dict_get metrics k PNone = PNone" if "k \<in> set metric_keys" for k
    using assms that by (auto simp: dict_get_def)
  then show ?thesis
    by (simp add: counts_of_metrics_def zero_counts_def metric_keys_def py_or_def)
qed

lemma normalize_returns_iff:
  "(\<exists>c. normalize_artifact data = Inr c)
   = (\<exists>d m. data = PDict d \<and> dict_get d ''metrics'' (PDict []) = PDict m)"
  by (cases data) (auto simp: normalize_artifact_def split: pyval.splits)

lemma normalize_object:
  "dict_get d ''metrics'' (PDict []) = PDict m
   \<Longrightarrow> normalize_artifact (PDict d) = Inr (counts_of_metrics m)"
  by (simp add: normalize_artifact_def)

text \<open>
  Values are not coerced: a count that is present and truthy goes into the record
  as it is, a negative number or a text included.
\<close>

lemma counts_pass_through:
  "counts_of_metrics [(''webDirectAssignments'', PInt (- 1)), (''externalUsers'', PStr ''many'')]
   = zero_counts \<lparr> direct_web_assignments := PInt (- 1), external_identities := PStr ''many'' \<rparr>"
  by (simp add: counts_of_metrics_def zero_counts_def dict_get_def py_or_def)

text \<open>
  Claim C1, as amended. Normalization returns a record exactly when the artifact is
  a JSON object whose \<^verbatim>\<open>metrics\<close> member is absent or is itself an object; the
  record is the record of all defaults when \<^verbatim>\<open>metrics\<close> is absent, and when
  each of the six fields is missing or \<^verbatim>\<open>null\<close>. In every other case (the
  artifact cannot be read or parsed, it is not an object, or \<^verbatim>\<open>metrics\<close> is not
  an object) normalization raises, and the error leaves \<^verbatim>\<open>analyze\<close>.
\<close>

theorem normalizer_outcomes:
  "((\<exists>c. normalize_artifact data = Inr c)
      = (\<exists>d m. data = PDict d \<and> dict_get d ''metrics'' (PDict []) = PDict m))
   \<and> (\<forall>d. data = PDict d \<and> map_of d ''metrics'' = None
        \<longrightarrow> normalize_artifact data = Inr zero_counts)
   \<and> (\<forall>d m. data = PDict d \<and> map_of d ''metrics'' = Some (PDict m)
          \<and> (\<forall>k \<in> set metric_keys. map_of m k = None \<or> map_of m k = Some PNone)
        \<longrightarrow> normalize_artifact data = Inr zero_counts)
   \<and> (\<forall>e. load_json w p = Inr data \<and> normalize_artifact data = Inl e
        \<longrightarrow> analyze w p t b = Inl e)
   \<and> (\<forall>e. load_json w p = Inl e \<longrightarrow> analyze w p t b = Inl e)"
proof (intro conjI allI impI)
  show "(\<exists>c. normalize_artifact data = Inr c)
      = (\<exists>d m. data = PDict d \<and> dict_get d ''metrics'' (PDict []) = PDict m)"
    by (rule normalize_returns_iff)
next
  fix d assume "data = PDict d \<and> map_of d ''metrics'' = None"
  then have "data = PDict d" and "dict_get d ''metrics'' (PDict []) = PDict []"
    by (simp_all add: dict_get_def)
  then show "normalize_artifact data = Inr zero_counts"
    by (simp add: normalize_object counts_of_metrics_defaults)
next
  fix d m
  assume h: "data = PDict d \<and> map_of d ''metrics'' = Some (PDict m)
          \<and> (\<forall>k \<in> set metric_keys. map_of m k = None \<or> map_of m k = Some PNone)"
  then have "dict_get d ''metrics'' (PDict []) = PDict m"
    by (simp add: dict_get_def)
  with h show "normalize_artifact data = Inr zero_counts"
    by (simp add: normalize_object counts_of_metrics_defaults)
next
  fix e assume "load_json w p = Inr data \<and> normalize_artifact data = Inl e"
  then show "analyze w p t b = Inl e" by (simp add: analyze_def)
next
  fix e assume "load_json w p = Inl e"
  then show "analyze w p t b = Inl e" by (simp add: analyze_def)
qed

theorem normalizer_outcomes_witness:
  "normalize_artifact (PDict [(''site'', PStr ''b'')]) = Inr zero_counts
   \<and> normalize_artifact (PDict [(''metrics'', PDict [(''externalUsers'', PNone)])]) = Inr zero_counts
   \<and> analyze absent_world ''audit.json'' DEFAULT_THRESHOLDS False
       = Inl (External ''No such file or directory'')"
  using normalizer_outcomes [of "PDict [(''site'', PStr ''b'')]"
          absent_world "''audit.json''" DEFAULT_THRESHOLDS False]
        normalizer_outcomes [of "PDict [(''metrics'', PDict [(''externalUsers'', PNone)])]"
          demo_world "''audit.json''" DEFAULT_THRESHOLDS False]
  by (simp add: metric_keys_def absent_world_def)

text \<open>
  The claim as stated fails: a \<^verbatim>\<open>metrics\<close> member that is \<^verbatim>\<open>null\<close>, an
  artifact that is a list and an artifact that is not there each make
  \<^verbatim>\<open>analyze\<close> raise; no record of defaults is produced.
\<close>

theorem normalizer_raises:
  "normalize_artifact (PDict [(''metrics'', PNone)]) = Inl AttributeError
   \<and> normalize_artifact (PList []) = Inl AttributeError
   \<and> analyze null_world ''audit.json'' DEFAULT_THRESHOLDS False = Inl AttributeError
   \<and> analyze absent_world ''audit.json'' DEFAULT_THRESHOLDS False
       = Inl (External ''No such file or directory'')"
  by (simp add: normalize_artifact_def dict_get_def analyze_def null_world_def absent_world_def)

lemma classify_zero: "classify w DEFAULT_THRESHOLDS zero_counts = Inr []"
  by (simp add: classify_def DEFAULT_THRESHOLDS_def zero_counts_def)

lemma no_risk_report_text:
  "join_lines (report_lines w p zero_counts []) = no_risk_report (now_iso w p)"
  by (simp add: report_lines_def risk_lines_def zero_counts_def str_int_def str_nat.simps
      digit_def str_bool_def em_dash_def no_risk_report_def nl_def)

text \<open>
  Claim C7 (default input, end to end). When the artifact is an object whose
  metrics mapping has none of the six fields (or has no \<^verbatim>\<open>metrics\<close> member at
  all), normalization gives the all-zero/false record, the classifier under the
  default thresholds returns no finding, and \<^verbatim>\<open>analyze\<close> returns the report
  \<open>no_risk_report\<close>, whose findings section, between the heading
  \<^verbatim>\<open>## Risk Ratings\<close> and the recommendations, is the one line saying that no
  risks met the configured thresholds; the hypertext form is that text as the
  \<^verbatim>\<open>markdown\<close> package renders it, or escaped inside \<^verbatim>\<open><pre>\<close>.
\<close>

theorem default_input_end_to_end:
  assumes "\<forall>k \<in> set metric_keys. map_of metrics k = None"
      and "load_json w p = Inr (PDict d)"
      and "dict_get d ''metrics'' (PDict []) = PDict metrics"
  shows "normalize_artifact (PDict d) = Inr zero_counts
     \<and> classify w DEFAULT_THRESHOLDS zero_counts = Inr []
     \<and> analyze w p DEFAULT_THRESHOLDS b
         = Inr (no_risk_report (now_iso w p),
                ''<!doctype html><html><head><meta charset='' @ [CHR 0x27] @ ''utf-8'' @ [CHR 0x27]
                @ ''><title>SharePoint Audit</title><style>'' @ CSS @ ''</style></head><body>''
                @ (case markdown_markdown w (no_risk_report (now_iso w p)) of
                     Some body \<Rightarrow> body
                   | None \<Rightarrow>
                       ''<pre>''
                       @ replace_char CHR ''<'' ''&lt;''
                           (replace_char CHR ''&'' ''&amp;'' (no_risk_report (now_iso w p)))
                       @ ''</pre>'')
                @ ''</body></html>'')
     \<and> take 3 (drop 13 (report_lines w p zero_counts []))
         = [''## Risk Ratings'', [], ''- No risks met the configured thresholds.'']"
proof -
  have n: "normalize_artifact (PDict d) = Inr zero_counts"
    using assms(1,3) by (simp add: normalize_object counts_of_metrics_defaults)
  have a: "analyze w p DEFAULT_THRESHOLDS b
         = Inr (no_risk_report (now_iso w p), html_page w (no_risk_report (now_iso w p)))"
    using assms(2) n by (simp add: analyze_def classify_zero Let_def no_risk_report_text)
  have r: "take 3 (drop 13 (report_lines w p zero_counts []))
         = [''## Risk Ratings'', [], ''- No risks met the configured thresholds.'']"
    by (simp add: report_lines_def risk_lines_def)
  from n a r show ?thesis
    by (simp add: classify_zero html_page_def html_body_def)
qed

theorem default_input_end_to_end_witness:
  "normalize_artifact (PDict [(''metrics'', PDict [(''scanned'', PInt 12)])]) = Inr zero_counts
   \<and> classify bare_world DEFAULT_THRESHOLDS zero_counts = Inr []
   \<and> analyze bare_world ''audit.json'' DEFAULT_THRESHOLDS True
       = Inr (no_risk_report ''2026-01-01T09:00:07'', bare_html)"
proof -
  have keys: "\<forall>k \<in> set metric_keys. map_of [(''scanned'', PInt 12)] k = None"
    by (simp add: metric_keys_def)
  have load: "load_json bare_world ''audit.json''
      = Inr (PDict [(''metrics'', PDict [(''scanned'', PInt 12)])])"
    by (simp add: bare_world_def)
  have get: "dict_get [(''metrics'', PDict [(''scanned'', PInt 12)])] ''metrics'' (PDict [])
      = PDict [(''scanned'', PInt 12)]"
    by (simp add: dict_get_def)
  have clock: "now_iso bare_world ''audit.json'' = ''2026-01-01T09:00:07''"
    and md: "markdown_markdown bare_world = (\<lambda>md. None)"
    by (simp_all add: bare_world_def demo_world_def)
  have page: "''<!doctype html><html><head><meta charset='' @ [CHR 0x27] @ ''utf-8'' @ [CHR 0x27]
                @ ''><title>SharePoint Audit</title><style>'' @ CSS @ ''</style></head><body>''
                @ (''<pre>''
                   @ replace_char CHR ''<'' ''&lt;''
                       (replace_char CHR ''&'' ''&amp;'' (no_risk_report ''2026-01-01T09:00:07''))
                   @ ''</pre>'')
                @ ''</body></html>'' = bare_html"
    by (simp add: bare_html_def CSS_def replace_char_def no_risk_report_def nl_def)
  note inst = default_input_end_to_end [OF keys load get, of True]
  have a: "analyze bare_world ''audit.json'' DEFAULT_THRESHOLDS True
       = Inr (no_risk_report ''2026-01-01T09:00:07'', bare_html)"
    using inst [THEN conjunct2, THEN conjunct2, THEN conjunct1]
    by (simp only: clock md option.case page)
  from inst [THEN conjunct1] inst [THEN conjunct2, THEN conjunct1] a show ?thesis
    by simp
qed

subsection \<open>Risk Classifier\<close>

text \<open>
  When the two compared counts are integers neither comparison raises, and the
  findings are the six optional entries in rule order.
\<close>

lemma classify_ints:
  assumes "unique_items c = PInt u" and "external_identities c = PInt x"
  shows "classify w t c =
     Inr ((if critical_anyone_or_everyone t \<and> anyone_or_everyone c
           then [(Critical, [CHR 0x27] @ ''Anyone/Everyone'' @ [CHR 0x27]
                              @ '' access detected at web/site scope.'')]
           else [])
        @ (if critical_external_owner t \<and> external_owner c
           then [(Critical, ''Guest/external user with Owner role detected.'')]
           else [])
        @ (if high_direct_web_perms t \<and> truthy (direct_web_assignments c)
           then [(High, ''Direct user permissions at web scope: ''
                          @ format_value (repr_other w) (direct_web_assignments c))]
           else [])
        @ (if high_unique_items_gt t < u
           then [(High, ''Items with unique permissions: '' @ str_int u)]
           else [])
        @ (if medium_external_item_identities_gte t \<le> x
           then [(Medium, ''External identities with item-level access: '' @ str_int x)]
           else [])
        @ (if medium_group_without_owner t \<and> truthy (groups_without_owner c)
           then [(Medium, ''SharePoint groups without owners: ''
                            @ format_value (repr_other w) (groups_without_owner c))]
           else []))"
  using assms by (simp add: classify_def)

text \<open>A count that is not a number makes the comparison, and so the classifier, raise.\<close>

lemma classify_raises_on_text:
  "classify w t (zero_counts \<lparr> external_identities := PStr ''many'' \<rparr>) = Inl TypeError"
  by (simp add: classify_def zero_counts_def)

text \<open>
  Claim C3 (rule 3), as amended. With \<open>high.direct_web_perms\<close> enabled and integer
  counts, the classifier returns, and the High finding that carries the count of
  direct web assignments is among the findings, once, exactly when that count is
  not zero.
\<close>

theorem rule3_direct_web_perms:
  assumes "high_direct_web_perms t"
      and "direct_web_assignments c = PInt n"
      and "unique_items c = PInt u" and "external_identities c = PInt x"
  shows "\<exists>fs. classify w t c = Inr fs
     \<and> count_list fs (High, ''Direct user permissions at web scope: '' @ str_int n)
         = (if n \<noteq> 0 then 1 else 0)"
  using assms(1,2) by (simp add: classify_ints [OF assms(3,4)])

theorem rule3_direct_web_perms_witness:
  "(\<exists>fs. classify demo_world DEFAULT_THRESHOLDS (zero_counts \<lparr> direct_web_assignments := PInt 3 \<rparr>) = Inr fs
      \<and> count_list fs (High, ''Direct user permissions at web scope: 3'') = 1)
   \<and> (\<exists>fs. classify demo_world DEFAULT_THRESHOLDS zero_counts = Inr fs
      \<and> count_list fs (High, ''Direct user permissions at web scope: 0'') = 0)
   \<and> (\<exists>fs. classify demo_world DEFAULT_THRESHOLDS (zero_counts \<lparr> direct_web_assignments := PInt (- 1) \<rparr>) = Inr fs
      \<and> count_list fs (High, ''Direct user permissions at web scope: -1'') = 1)"
  using rule3_direct_web_perms [of DEFAULT_THRESHOLDS "zero_counts \<lparr> direct_web_assignments := PInt 3 \<rparr>" 3 0 0 demo_world]
        rule3_direct_web_perms [of DEFAULT_THRESHOLDS zero_counts 0 0 0 demo_world]
        rule3_direct_web_perms [of DEFAULT_THRESHOLDS "zero_counts \<lparr> direct_web_assignments := PInt (- 1) \<rparr>" "- 1" 0 0 demo_world]
  by (simp add: zero_counts_def DEFAULT_THRESHOLDS_def str_int_def str_nat.simps digit_def)

text \<open>
  The claim as stated fails: rule 3 tests the count for truth, so for the count
  \<open>-1\<close>, which the normalizer lets through, the finding is emitted although the
  count is not greater than zero.
\<close>

theorem rule3_negative_count:
  "classify demo_world DEFAULT_THRESHOLDS (zero_counts \<lparr> direct_web_assignments := PInt (- 1) \<rparr>)
     = Inr [(High, ''Direct user permissions at web scope: -1'')]
   \<and> normalize_artifact (PDict [(''metrics'', PDict [(''webDirectAssignments'', PInt (- 1))])])
     = Inr (zero_counts \<lparr> direct_web_assignments := PInt (- 1) \<rparr>)
   \<and> \<not> (0 :: int) < - 1"
  by (simp add: classify_def DEFAULT_THRESHOLDS_def zero_counts_def str_int_def
      str_nat.simps digit_def normalize_artifact_def counts_of_metrics_def dict_get_def py_or_def)

text \<open>
  Claim C6 (threshold boundaries). On integer counts the classifier returns; the
  High unique-items finding occurs once when \<open>unique_items\<close> is above
  \<open>high.unique_items_gt\<close> and not at all otherwise (so not at the limit itself);
  the Medium external-identities finding occurs (once) when \<open>external_identities\<close>
  is at or above \<open>medium.external_item_identities_gte\<close> and not at all below it
  (so not at one below).
\<close>

theorem threshold_boundaries:
  assumes "unique_items c = PInt u" and "external_identities c = PInt x"
  shows "\<exists>fs. classify w t c = Inr fs
     \<and> count_list fs (High, ''Items with unique permissions: '' @ str_int u)
         = (if high_unique_items_gt t < u then 1 else 0)
     \<and> count_list fs (Medium, ''External identities with item-level access: '' @ str_int x)
         = (if medium_external_item_identities_gte t \<le> x then 1 else 0)"
  by (simp add: classify_ints [OF assms])

theorem threshold_boundaries_witness:
  "(\<exists>fs. classify demo_world DEFAULT_THRESHOLDS
            (zero_counts \<lparr> unique_items := PInt 251, external_identities := PInt 10 \<rparr>) = Inr fs
      \<and> count_list fs (High, ''Items with unique permissions: 251'') = 1
      \<and> count_list fs (Medium, ''External identities with item-level access: 10'') = 1)
   \<and> (\<exists>fs. classify demo_world DEFAULT_THRESHOLDS
            (zero_counts \<lparr> unique_items := PInt 250, external_identities := PInt 9 \<rparr>) = Inr fs
      \<and> count_list fs (High, ''Items with unique permissions: 250'') = 0
      \<and> count_list fs (Medium, ''External identities with item-level access: 9'') = 0)"
  using threshold_boundaries [of "zero_counts \<lparr> unique_items := PInt 251, external_identities := PInt 10 \<rparr>"
                                 251 10 demo_world DEFAULT_THRESHOLDS]
        threshold_boundaries [of "zero_counts \<lparr> unique_items := PInt 250, external_identities := PInt 9 \<rparr>"
                                 250 9 demo_world DEFAULT_THRESHOLDS]
  by (simp add: zero_counts_def DEFAULT_THRESHOLDS_def str_int_def str_nat.simps digit_def)

text \<open>
  Claim C8 (single finding under the defaults). For the counts of the example and
  \<open>DEFAULT_THRESHOLDS\<close> the classifier returns exactly one finding, of severity
  High, whose message carries the count 300.
\<close>

theorem single_finding_example:
  "classify w DEFAULT_THRESHOLDS
     \<lparr> unique_items = PInt 300, external_identities = PInt 5,
       direct_web_assignments = PInt 0, groups_without_owner = PInt 0,
       anyone_or_everyone = False, external_owner = False \<rparr>
   = Inr [(High, ''Items with unique permissions: 300'')]"
  by (simp add: classify_def DEFAULT_THRESHOLDS_def str_int_def str_nat.simps digit_def)

theorem single_finding_example_witness:
  "classify demo_world DEFAULT_THRESHOLDS
     \<lparr> unique_items = PInt 300, external_identities = PInt 5,
       direct_web_assignments = PInt 0, groups_without_owner = PInt 0,
       anyone_or_everyone = False, external_owner = False \<rparr>
   = Inr [(High, ''Items with unique permissions: 300'')]"
  by (rule single_finding_example)

subsection \<open>\<^verbatim>\<open>analyze\<close> and the internal domains\<close>

text \<open>
  Claim C9 (internal-domain noninterference). For every artifact, world and
  threshold configuration, \<^verbatim>\<open>analyze\<close> returns the same outcome, the same plain
  report and the same hypertext report (or the same error), whether
  \<open>internal_domains_supplied\<close> is true or false.
\<close>

theorem internal_domains_noninterference:
  "analyze w json_path t True = analyze w json_path t False"
  by (simp add: analyze_def)

theorem internal_domains_noninterference_witness:
  "analyze demo_world ''audit.json'' DEFAULT_THRESHOLDS True
   = analyze demo_world ''audit.json'' DEFAULT_THRESHOLDS False"
  by (rule internal_domains_noninterference)

subsection \<open>Site identifiers and the site list\<close>

lemma mark_scan:
  "concat (map2 mark (prev # map Some s) s) =
     (case prev of
        None \<Rightarrow> re_sub s
      | Some p \<Rightarrow> if allowed p then re_sub s else re_sub (dropWhile (\<lambda>x. \<not> allowed x) s))"
proof (induction s arbitrary: prev)
  case Nil
  then show ?case by (simp split: option.splits)
next
  case (Cons c cs)
  have "concat (map2 mark (prev # map Some (c # cs)) (c # cs))
        = mark prev c @ concat (map2 mark (Some c # map Some cs) cs)"
    by simp
  also have "\<dots> = mark prev c
        @ (if allowed c then re_sub cs else re_sub (dropWhile (\<lambda>x. \<not> allowed x) cs))"
    by (simp only: Cons.IH [of "Some c"] option.case)
  finally show ?case
    by (cases "allowed c") (simp_all add: mark_def split: option.splits)
qed

lemma re_sub_runs: "re_sub s = replace_runs s"
  by (simp add: replace_runs_def mark_scan)

lemma re_sub_isolated:
  "successively (\<lambda>x y. allowed x \<or> allowed y) s \<Longrightarrow> re_sub s = spec_sanitize s"
proof (induction s rule: re_sub.induct)
  case 1
  then show ?case by (simp add: spec_sanitize_def)
next
  case (2 c cs)
  show ?case
  proof (cases "allowed c")
    case True
    with 2 show ?thesis
      by (cases cs) (simp_all add: spec_sanitize_def)
  next
    case False
    with 2(3) have hd: "cs = [] \<or> allowed (hd cs)"
      and succ: "successively (\<lambda>x y. allowed x \<or> allowed y) cs"
      by (cases cs; simp)+
    from hd have "dropWhile (\<lambda>x. \<not> allowed x) cs = cs"
      by (cases cs) auto
    with False 2(2) succ show ?thesis
      by (simp add: spec_sanitize_def)
  qed
qed

lemma strip_slash_id:
  assumes "site = [] \<or> (hd site \<noteq> CHR ''/'' \<and> last site \<noteq> CHR ''/'')"
  shows "strip_slash site = site"
proof (cases site)
  case Nil
  then show ?thesis by (simp add: strip_slash_def strip_chars_def)
next
  case (Cons c cs)
  with assms have h: "hd site \<noteq> CHR ''/''" and l: "last site \<noteq> CHR ''/''" by auto
  from h Cons have "dropWhile (\<lambda>c. c = CHR ''/'') site = site" by simp
  moreover have "dropWhile (\<lambda>c. c = CHR ''/'') (rev site) = rev site"
  proof -
    from l have "hd (rev site) \<noteq> CHR ''/''" by (simp add: hd_rev)
    moreover from Cons have "rev site \<noteq> []" by simp
    ultimately show ?thesis by (cases "rev site") simp_all
  qed
  ultimately show ?thesis by (simp add: strip_slash_def strip_chars_def)
qed

text \<open>The substitution never lengthens, and keeps the length only when no run is longer than one.\<close>

lemma length_re_sub: "length (re_sub s) \<le> length s"
proof (induction s rule: re_sub.induct)
  case 1
  then show ?case by simp
next
  case (2 c cs)
  have "length (dropWhile (\<lambda>x. \<not> allowed x) cs) \<le> length cs"
    by (rule length_dropWhile_le)
  with 2 show ?case by (cases "allowed c") auto
qed

lemma dropWhile_same_length:
  assumes "length (dropWhile p s) = length s"
  shows "dropWhile p s = s"
proof -
  have "takeWhile p s @ dropWhile p s = s" by simp
  then have "length (takeWhile p s) + length (dropWhile p s) = length s"
    by (metis length_append)
  with assms have "takeWhile p s = []" by simp
  then show ?thesis by (metis append_Nil takeWhile_dropWhile_id)
qed

lemma re_sub_same_length:
  "length (re_sub s) = length s \<Longrightarrow> successively (\<lambda>x y. allowed x \<or> allowed y) s"
proof (induction s rule: re_sub.induct)
  case 1
  then show ?case by simp
next
  case (2 c cs)
  show ?case
  proof (cases "allowed c")
    case True
    with 2 show ?thesis by (cases cs) simp_all
  next
    case False
    let ?d = "dropWhile (\<lambda>x. \<not> allowed x) cs"
    from False 2(3) have len: "length (re_sub ?d) = length cs" by simp
    have "length (re_sub ?d) \<le> length ?d" by (rule length_re_sub)
    moreover have "length ?d \<le> length cs" by (rule length_dropWhile_le)
    ultimately have ld: "length ?d = length cs" and lr: "length (re_sub ?d) = length ?d"
      using len by simp_all
    from ld have same: "?d = cs" by (rule dropWhile_same_length)
    from 2(2) [OF False lr] same have succ: "successively (\<lambda>x y. allowed x \<or> allowed y) cs"
      by simp
    from same have "cs = [] \<or> allowed (hd cs)"
      by (simp add: dropWhile_eq_self_iff)
    with succ show ?thesis by (cases cs) simp_all
  qed
qed

lemma strip_slash_same_length:
  assumes "length (strip_slash site) = length site"
  shows "site = [] \<or> (hd site \<noteq> CHR ''/'' \<and> last site \<noteq> CHR ''/'')"
proof -
  let ?p = "\<lambda>c. c = CHR ''/''"
  have l1: "length (dropWhile ?p (rev (dropWhile ?p site))) \<le> length (dropWhile ?p site)"
    by (metis length_dropWhile_le length_rev)
  have l2: "length (dropWhile ?p site) \<le> length site" by (rule length_dropWhile_le)
  from assms have "length (dropWhile ?p (rev (dropWhile ?p site))) = length site"
    by (simp add: strip_slash_def strip_chars_def)
  with l1 l2 have a: "length (dropWhile ?p site) = length site"
    and b: "length (dropWhile ?p (rev (dropWhile ?p site))) = length (rev (dropWhile ?p site))"
    by simp_all
  from a have at_front: "dropWhile ?p site = site" by (rule dropWhile_same_length)
  from b have "dropWhile ?p (rev (dropWhile ?p site)) = rev (dropWhile ?p site)"
    by (rule dropWhile_same_length)
  with at_front have at_end: "dropWhile ?p (rev site) = rev site" by simp
  from at_front have "site = [] \<or> hd site \<noteq> CHR ''/''"
    by (simp add: dropWhile_eq_self_iff)
  moreover from at_end have "site = [] \<or> last site \<noteq> CHR ''/''"
    by (simp add: dropWhile_eq_self_iff hd_rev)
  ultimately show ?thesis by blast
qed

text \<open>
  Claim C4, as amended. The directory name is made from the site identifier
  without its leading and trailing slashes, by replacing every run of characters
  outside \<^verbatim>\<open>[A-Za-z0-9._-]\<close> with one underscore: a character of the class is
  kept, a character outside it gives an underscore if it opens a run and nothing
  otherwise. The name is the per-character replacement of the specification
  exactly when the identifier neither starts nor ends with a slash and no two
  characters outside the class are neighbours.
\<close>

theorem safe_name_replaces_runs:
  "safe_name site = replace_runs (strip_slash site)
   \<and> ((safe_name site = spec_sanitize site)
      = ((site = [] \<or> (hd site \<noteq> CHR ''/'' \<and> last site \<noteq> CHR ''/''))
         \<and> successively (\<lambda>x y. allowed x \<or> allowed y) site))"
proof
  show "safe_name site = replace_runs (strip_slash site)"
    by (simp add: safe_name_def re_sub_runs)
next
  show "(safe_name site = spec_sanitize site)
      = ((site = [] \<or> (hd site \<noteq> CHR ''/'' \<and> last site \<noteq> CHR ''/''))
         \<and> successively (\<lambda>x y. allowed x \<or> allowed y) site)"
  proof
    assume eq: "safe_name site = spec_sanitize site"
    then have "length (re_sub (strip_slash site)) = length site"
      by (simp add: safe_name_def spec_sanitize_def)
    moreover have "length (re_sub (strip_slash site)) \<le> length (strip_slash site)"
      by (rule length_re_sub)
    moreover have "length (strip_slash site) \<le> length site"
      by (metis strip_slash_def strip_chars_def length_rev length_dropWhile_le le_trans)
    ultimately have s: "length (strip_slash site) = length site"
      and r: "length (re_sub (strip_slash site)) = length (strip_slash site)"
      by simp_all
    from s have ends: "site = [] \<or> (hd site \<noteq> CHR ''/'' \<and> last site \<noteq> CHR ''/'')"
      by (rule strip_slash_same_length)
    then have "strip_slash site = site" by (rule strip_slash_id)
    with r have "successively (\<lambda>x y. allowed x \<or> allowed y) site"
      by (simp add: re_sub_same_length)
    with ends show "(site = [] \<or> (hd site \<noteq> CHR ''/'' \<and> last site \<noteq> CHR ''/''))
         \<and> successively (\<lambda>x y. allowed x \<or> allowed y) site"
      by simp
  next
    assume "(site = [] \<or> (hd site \<noteq> CHR ''/'' \<and> last site \<noteq> CHR ''/''))
         \<and> successively (\<lambda>x y. allowed x \<or> allowed y) site"
    then show "safe_name site = spec_sanitize site"
      by (simp add: safe_name_def strip_slash_id re_sub_isolated)
  qed
qed

theorem safe_name_replaces_runs_witness:
  "safe_name ''https://contoso.sharepoint.com/sites/hr/''
     = replace_runs ''https://contoso.sharepoint.com/sites/hr''
   \<and> safe_name ''tenant.example/a b'' = spec_sanitize ''tenant.example/a b''
   \<and> safe_name ''a//b'' \<noteq> spec_sanitize ''a//b''
   \<and> safe_name ''a/'' \<noteq> spec_sanitize ''a/''"
proof (intro conjI)
  show "safe_name ''https://contoso.sharepoint.com/sites/hr/''
     = replace_runs ''https://contoso.sharepoint.com/sites/hr''"
    using safe_name_replaces_runs [of "''https://contoso.sharepoint.com/sites/hr/''"]
    by (simp add: strip_slash_def strip_chars_def)
next
  have "successively (\<lambda>x y. allowed x \<or> allowed y) ''tenant.example/a b''"
    by (simp add: allowed_def)
  then show "safe_name ''tenant.example/a b'' = spec_sanitize ''tenant.example/a b''"
    using safe_name_replaces_runs [of "''tenant.example/a b''", THEN conjunct2] by simp
next
  have "\<not> successively (\<lambda>x y. allowed x \<or> allowed y) ''a//b''"
    by (simp add: allowed_def)
  then show "safe_name ''a//b'' \<noteq> spec_sanitize ''a//b''"
    using safe_name_replaces_runs [of "''a//b''", THEN conjunct2] by simp
next
  show "safe_name ''a/'' \<noteq> spec_sanitize ''a/''"
    using safe_name_replaces_runs [of "''a/''", THEN conjunct2] by simp
qed

text \<open>
  The claim as stated fails: the three characters \<^verbatim>\<open>://\<close> give one underscore,
  not three, and the closing slash gives none.
\<close>

theorem safe_name_collapses_runs:
  "safe_name ''https://contoso.sharepoint.com/sites/hr/'' = ''https_contoso.sharepoint.com_sites_hr''
   \<and> spec_sanitize ''https://contoso.sharepoint.com/sites/hr/''
       = ''https___contoso.sharepoint.com_sites_hr_''
   \<and> safe_name ''https://contoso.sharepoint.com/sites/hr/''
       \<noteq> spec_sanitize ''https://contoso.sharepoint.com/sites/hr/''"
  by (simp add: safe_name_def strip_slash_def strip_chars_def spec_sanitize_def allowed_def)

lemma csv_sites_append: "csv_sites (xs @ ys) = csv_sites xs @ csv_sites ys"
  by (induction xs) (simp_all split: option.splits)

text \<open>A row whose site cell is missing or empty adds no site.\<close>

lemma csv_sites_skips_empty:
  "r ''SiteUrl'' = None \<or> r ''SiteUrl'' = Some [] \<Longrightarrow> csv_sites (xs @ r # ys) = csv_sites (xs @ ys)"
  by (auto simp: csv_sites_append)

text \<open>With no site left the process exits before the loop, after making the run directory.\<close>

lemma main_no_sites:
  assumes "environ w (pfx_pass_env a) = Some pw" and "pw \<noteq> []"
      and "mkdir_err w (out_root a) = None"
      and "mkdir_err w (path_join (run_dir_of w a) ''logs'') = None"
      and "collect_sites w a = Inr []"
  shows "main w a = ([MkDir (out_root a), MkDir (path_join (run_dir_of w a) ''logs'')],
                     SysExit ''No sites provided.'')"
  using assms by (simp add: main_def)

text \<open>
  Claim C5 (site-list resolution), at a cell of whitespace. The claim has every
  blank entry skipped, three sites from three non-blank rows and one blank row,
  and a fatal error when no site is left. The code does so for a cell that is
  missing or empty, but line 177 tests the cell before it strips it: a cell that
  holds only spaces passes the test and is stripped to the empty identifier. Three
  rows with a site and one row of spaces give four sites; and a file whose only
  row is a row of spaces does not end in \<^verbatim>\<open>No sites provided.\<close>: the loop runs
  for the empty identifier, makes its directory and reports its failed grant.
\<close>

theorem whitespace_entry_not_skipped:
  "csv_sites [[''SiteUrl'' \<mapsto> ''https://contoso.sharepoint.com/sites/a''],
              [''SiteUrl'' \<mapsto> ''https://contoso.sharepoint.com/sites/b''],
              [''SiteUrl'' \<mapsto> ''   ''],
              [''SiteUrl'' \<mapsto> ''https://contoso.sharepoint.com/sites/c'']]
     = [''https://contoso.sharepoint.com/sites/a'', ''https://contoso.sharepoint.com/sites/b'',
        [], ''https://contoso.sharepoint.com/sites/c'']
   \<and> main spaces_world demo_args
     = ([MkDir ''/out'', MkDir ''/out/2026-01-01_09-00-00/logs'',
         MkDir ''/out/2026-01-01_09-00-00/site-'', Announce Grant [],
         Failed Grant [] (ValueError ''Unsupported SharePoint URL: ''),
         RunComplete ''/out/2026-01-01_09-00-00''], Returned)"
  by (simp add: strip_def strip_chars_def is_space_def main_def spaces_world_def demo_world_def
      demo_args_def collect_sites_def sites_from_csv_def run_dir_of_def path_join_def
      process_site_def site_stages_def site_dir_of_def safe_name_def strip_slash_def
      grant_sites_selected_def derive_admin_url_def)

subsection \<open>Run Orchestrator\<close>

lemma process_site_cases:
  "mkdir_err w (site_dir_of rd s) = None \<Longrightarrow>
   process_site w a rd s =
     (MkDir (site_dir_of rd s) # Announce Grant s #
      (case grant_sites_selected w s of
         Inl e \<Rightarrow> [Failed Grant s e]
       | Inr u \<Rightarrow>
           Announce Audit s #
           (case run_audit_script w s (internal_domains a) (site_dir_of rd s) of
              Inl e \<Rightarrow> [Failed Audit s e]
            | Inr json \<Rightarrow>
                Announce Analyze s #
                (case analyze w json DEFAULT_THRESHOLDS (internal_domains a \<noteq> []) of
                   Inl e \<Rightarrow> [Failed Analyze s e]
                 | Inr (md, html) \<Rightarrow> write_reports w s (site_dir_of rd s) md html))),
      None)"
  by (simp add: process_site_def site_stages_def)

lemma process_site_no_dir:
  "mkdir_err w (site_dir_of rd s) = Some e \<Longrightarrow> process_site w a rd s = ([], Some e)"
  by (simp add: process_site_def)

lemma run_sites_prefix:
  "\<forall>x \<in> set xs. mkdir_err w (site_dir_of rd x) = None \<Longrightarrow>
   run_sites w a rd (xs @ ys)
   = (concat (map (\<lambda>x. fst (process_site w a rd x)) xs) @ fst (run_sites w a rd ys),
      snd (run_sites w a rd ys))"
  by (induction xs) (simp_all add: process_site_cases split: prod.splits)

lemma run_sites_all:
  "\<forall>x \<in> set sites. mkdir_err w (site_dir_of rd x) = None \<Longrightarrow>
   run_sites w a rd sites
   = (concat (map (\<lambda>x. fst (process_site w a rd x)) sites) @ [RunComplete rd], None)"
  using run_sites_prefix [of sites w rd a "[]"] by simp

lemma run_sites_stops:
  assumes "\<forall>x \<in> set xs. mkdir_err w (site_dir_of rd x) = None"
      and "mkdir_err w (site_dir_of rd s) = Some e"
  shows "run_sites w a rd (xs @ s # ys)
   = (concat (map (\<lambda>x. fst (process_site w a rd x)) xs), Some e)"
  using assms(2) by (simp add: run_sites_prefix [OF assms(1)] process_site_no_dir)

lemma early_failure_no_write:
  assumes "st = Grant \<or> st = Audit"
      and "Failed st s' e \<in> set (fst (process_site w a rd s))"
  shows "WriteText p body \<notin> set (fst (process_site w a rd s))"
    and "WriteFailed p e' \<notin> set (fst (process_site w a rd s))"
  using assms
  by (auto simp: process_site_def site_stages_def write_reports_def
      split: sum.splits prod.splits option.splits)

lemma failed_has_dir:
  "Failed st s' e \<in> set (fst (process_site w a rd s))
   \<Longrightarrow> MkDir (site_dir_of rd s) \<in> set (fst (process_site w a rd s))"
  by (auto simp: process_site_def split: option.splits)

lemma main_returns:
  assumes "environ w (pfx_pass_env a) = Some pw" and "pw \<noteq> []"
      and "mkdir_err w (out_root a) = None"
      and "mkdir_err w (path_join (run_dir_of w a) ''logs'') = None"
      and "collect_sites w a = Inr ss" and "ss \<noteq> []"
      and "\<forall>x \<in> set ss. mkdir_err w (site_dir_of (run_dir_of w a) x) = None"
  shows "main w a =
     ([MkDir (out_root a), MkDir (path_join (run_dir_of w a) ''logs'')]
        @ concat (map (\<lambda>x. fst (process_site w a (run_dir_of w a) x)) ss)
        @ [RunComplete (run_dir_of w a)], Returned)"
  using assms(1-6) by (simp add: main_def run_sites_all [OF assms(7)])

lemma demo_analyze:
  "analyze demo_world p DEFAULT_THRESHOLDS b = Inr (demo_report, demo_html)"
  "analyze no_html_world p DEFAULT_THRESHOLDS b = Inr (demo_report, demo_html)"
  by (simp_all add: analyze_def no_html_world_def demo_world_def demo_artifact_def
      normalize_artifact_def dict_get_def
      counts_of_metrics_def py_or_def classify_def DEFAULT_THRESHOLDS_def report_lines_def
      risk_lines_def finding_line_def str_severity_def str_bool_def str_int_def str_nat.simps
      digit_def em_dash_def html_page_def html_body_def CSS_def replace_char_def
      demo_report_def demo_html_def nl_def Let_def)

lemma demo_grant:
  "grant_sites_selected demo_world site_a = Inr ()"
  "grant_sites_selected demo_world site_b = Inr ()"
  "grant_sites_selected no_dir_world site_a = Inr ()"
  "grant_sites_selected no_html_world site_b = Inr ()"
  by (simp_all add: grant_sites_selected_def derive_admin_url_def tenant_char_def site_a_def
      site_b_def demo_world_def no_dir_world_def no_html_world_def)

lemma demo_audit:
  "run_audit_script demo_world site_a ds d = Inl (External ''exit 1'')"
  "run_audit_script demo_world site_b ds d = Inr (path_join d ''audit.json'')"
  "run_audit_script no_dir_world site_a ds d = Inl (External ''exit 1'')"
  "run_audit_script no_html_world site_b ds d = Inr (path_join d ''audit.json'')"
  by (simp_all add: run_audit_script_def demo_world_def no_dir_world_def no_html_world_def
      site_a_def site_b_def)

lemma demo_dirs:
  "site_dir_of demo_run_dir site_a = dir_a"
  "site_dir_of demo_run_dir site_b = dir_b"
  by (simp_all add: site_dir_of_def path_join_def safe_name_def strip_slash_def strip_chars_def
      allowed_def site_a_def site_b_def demo_run_dir_def dir_a_def dir_b_def)

lemma demo_paths:
  "path_join dir_b ''report.md'' = dir_b @ ''/report.md''"
  "path_join dir_b ''report.html'' = dir_b @ ''/report.html''"
  by (simp_all add: path_join_def dir_b_def)

lemma demo_fs:
  "mkdir_err demo_world p = None" "write_err demo_world p body = None"
  by (simp_all add: demo_world_def)

lemma demo_process_a:
  "process_site demo_world demo_args demo_run_dir site_a
   = ([MkDir dir_a, Announce Grant site_a, Announce Audit site_a,
       Failed Audit site_a (External ''exit 1'')], None)"
  by (simp add: process_site_cases demo_grant demo_audit demo_dirs demo_fs)

text \<open>
  Claim C2, as amended. A failure of the grant, audit or analyze stage of a site
  (a report that cannot be written included) ends that site with the failure line
  for that stage and that site, none of its later stages starts, and the loop goes
  on; when every site's directory can be created, the events of a run are the
  events of each site in turn followed by the report of the run directory, and
  \<^verbatim>\<open>main\<close> returns normally. Creating a site's directory is outside the
  \<^verbatim>\<open>try\<close> blocks: when it fails the run ends there with that error, before the
  site's grant, the remaining sites and the closing line. In particular, when the
  audit fails for \<open>sa\<close> and every stage and both writes succeed for \<open>sb\<close>, nothing
  is written for \<open>sa\<close>, both reports are written for \<open>sb\<close>, and the run directory
  is reported.
\<close>

theorem per_site_failure_isolation:
  "((\<forall>x \<in> set sites. mkdir_err w (site_dir_of rd x) = None)
      \<longrightarrow> run_sites w a rd sites
          = (concat (map (\<lambda>x. fst (process_site w a rd x)) sites) @ [RunComplete rd], None))
   \<and> (\<forall>xs ys e. (\<forall>x \<in> set xs. mkdir_err w (site_dir_of rd x) = None)
          \<and> mkdir_err w (site_dir_of rd s) = Some e
        \<longrightarrow> run_sites w a rd (xs @ s # ys)
            = (concat (map (\<lambda>x. fst (process_site w a rd x)) xs), Some e))
   \<and> (mkdir_err w (site_dir_of rd s) = None \<longrightarrow>
        (\<forall>e. grant_sites_selected w s = Inl e
          \<longrightarrow> process_site w a rd s
              = ([MkDir (site_dir_of rd s), Announce Grant s, Failed Grant s e], None))
      \<and> (\<forall>e. grant_sites_selected w s = Inr ()
            \<and> run_audit_script w s (internal_domains a) (site_dir_of rd s) = Inl e
          \<longrightarrow> process_site w a rd s
              = ([MkDir (site_dir_of rd s), Announce Grant s, Announce Audit s,
                  Failed Audit s e], None))
      \<and> (\<forall>json e. grant_sites_selected w s = Inr ()
            \<and> run_audit_script w s (internal_domains a) (site_dir_of rd s) = Inr json
            \<and> analyze w json DEFAULT_THRESHOLDS (internal_domains a \<noteq> []) = Inl e
          \<longrightarrow> process_site w a rd s
              = ([MkDir (site_dir_of rd s), Announce Grant s, Announce Audit s,
                  Announce Analyze s, Failed Analyze s e], None))
      \<and> (\<forall>json md html e. grant_sites_selected w s = Inr ()
            \<and> run_audit_script w s (internal_domains a) (site_dir_of rd s) = Inr json
            \<and> analyze w json DEFAULT_THRESHOLDS (internal_domains a \<noteq> []) = Inr (md, html)
            \<and> write_err w (path_join (site_dir_of rd s) ''report.md'') md = Some e
          \<longrightarrow> process_site w a rd s
              = ([MkDir (site_dir_of rd s), Announce Grant s, Announce Audit s,
                  Announce Analyze s,
                  WriteFailed (path_join (site_dir_of rd s) ''report.md'') e,
                  Failed Analyze s e], None))
      \<and> (\<forall>json md html e. grant_sites_selected w s = Inr ()
            \<and> run_audit_script w s (internal_domains a) (site_dir_of rd s) = Inr json
            \<and> analyze w json DEFAULT_THRESHOLDS (internal_domains a \<noteq> []) = Inr (md, html)
            \<and> write_err w (path_join (site_dir_of rd s) ''report.md'') md = None
            \<and> write_err w (path_join (site_dir_of rd s) ''report.html'') html = Some e
          \<longrightarrow> process_site w a rd s
              = ([MkDir (site_dir_of rd s), Announce Grant s, Announce Audit s,
                  Announce Analyze s,
                  WriteText (path_join (site_dir_of rd s) ''report.md'') md,
                  WriteFailed (path_join (site_dir_of rd s) ''report.html'') e,
                  Failed Analyze s e], None))
      \<and> (\<forall>json md html. grant_sites_selected w s = Inr ()
            \<and> run_audit_script w s (internal_domains a) (site_dir_of rd s) = Inr json
            \<and> analyze w json DEFAULT_THRESHOLDS (internal_domains a \<noteq> []) = Inr (md, html)
            \<and> write_err w (path_join (site_dir_of rd s) ''report.md'') md = None
            \<and> write_err w (path_join (site_dir_of rd s) ''report.html'') html = None
          \<longrightarrow> process_site w a rd s
              = ([MkDir (site_dir_of rd s), Announce Grant s, Announce Audit s,
                  Announce Analyze s,
                  WriteText (path_join (site_dir_of rd s) ''report.md'') md,
                  WriteText (path_join (site_dir_of rd s) ''report.html'') html], None)))
   \<and> (\<forall>e json md html.
          mkdir_err w (site_dir_of rd sa) = None \<and> mkdir_err w (site_dir_of rd sb) = None
          \<and> grant_sites_selected w sa = Inr ()
          \<and> run_audit_script w sa (internal_domains a) (site_dir_of rd sa) = Inl e
          \<and> grant_sites_selected w sb = Inr ()
          \<and> run_audit_script w sb (internal_domains a) (site_dir_of rd sb) = Inr json
          \<and> analyze w json DEFAULT_THRESHOLDS (internal_domains a \<noteq> []) = Inr (md, html)
          \<and> write_err w (path_join (site_dir_of rd sb) ''report.md'') md = None
          \<and> write_err w (path_join (site_dir_of rd sb) ''report.html'') html = None
        \<longrightarrow> run_sites w a rd [sa, sb]
            = ([MkDir (site_dir_of rd sa), Announce Grant sa, Announce Audit sa,
                Failed Audit sa e,
                MkDir (site_dir_of rd sb), Announce Grant sb, Announce Audit sb,
                Announce Analyze sb,
                WriteText (path_join (site_dir_of rd sb) ''report.md'') md,
                WriteText (path_join (site_dir_of rd sb) ''report.html'') html,
                RunComplete rd], None))
   \<and> (\<forall>pw ss. environ w (pfx_pass_env a) = Some pw \<and> pw \<noteq> []
          \<and> mkdir_err w (out_root a) = None
          \<and> mkdir_err w (path_join (run_dir_of w a) ''logs'') = None
          \<and> collect_sites w a = Inr ss \<and> ss \<noteq> []
          \<and> (\<forall>x \<in> set ss. mkdir_err w (site_dir_of (run_dir_of w a) x) = None)
        \<longrightarrow> main w a
            = ([MkDir (out_root a), MkDir (path_join (run_dir_of w a) ''logs'')]
                 @ concat (map (\<lambda>x. fst (process_site w a (run_dir_of w a) x)) ss)
                 @ [RunComplete (run_dir_of w a)], Returned))"
proof (intro conjI allI impI)
  assume "\<forall>x \<in> set sites. mkdir_err w (site_dir_of rd x) = None"
  then show "run_sites w a rd sites
          = (concat (map (\<lambda>x. fst (process_site w a rd x)) sites) @ [RunComplete rd], None)"
    by (rule run_sites_all)
next
  fix xs ys e
  assume "(\<forall>x \<in> set xs. mkdir_err w (site_dir_of rd x) = None)
          \<and> mkdir_err w (site_dir_of rd s) = Some e"
  then show "run_sites w a rd (xs @ s # ys)
            = (concat (map (\<lambda>x. fst (process_site w a rd x)) xs), Some e)"
    by (simp add: run_sites_stops)
next
  fix pw ss
  assume "environ w (pfx_pass_env a) = Some pw \<and> pw \<noteq> []
          \<and> mkdir_err w (out_root a) = None
          \<and> mkdir_err w (path_join (run_dir_of w a) ''logs'') = None
          \<and> collect_sites w a = Inr ss \<and> ss \<noteq> []
          \<and> (\<forall>x \<in> set ss. mkdir_err w (site_dir_of (run_dir_of w a) x) = None)"
  then show "main w a
            = ([MkDir (out_root a), MkDir (path_join (run_dir_of w a) ''logs'')]
                 @ concat (map (\<lambda>x. fst (process_site w a (run_dir_of w a) x)) ss)
                 @ [RunComplete (run_dir_of w a)], Returned)"
    by (simp add: main_returns)
qed (simp_all add: process_site_cases write_reports_def)

theorem per_site_failure_isolation_witness:
  "run_sites demo_world demo_args demo_run_dir [site_a, site_b]
   = ([MkDir dir_a, Announce Grant site_a, Announce Audit site_a,
       Failed Audit site_a (External ''exit 1''),
       MkDir dir_b, Announce Grant site_b, Announce Audit site_b, Announce Analyze site_b,
       WriteText (dir_b @ ''/report.md'') demo_report,
       WriteText (dir_b @ ''/report.html'') demo_html,
       RunComplete demo_run_dir], None)"
proof -
  note two_sites = per_site_failure_isolation
    [of "[]" demo_world demo_run_dir demo_args site_a site_a site_b,
     THEN conjunct2, THEN conjunct2, THEN conjunct2, THEN conjunct1, rule_format]
  have run: "run_sites demo_world demo_args demo_run_dir [site_a, site_b]
     = ([MkDir (site_dir_of demo_run_dir site_a),
         Announce Grant site_a, Announce Audit site_a, Failed Audit site_a (External ''exit 1''),
         MkDir (site_dir_of demo_run_dir site_b),
         Announce Grant site_b, Announce Audit site_b, Announce Analyze site_b,
         WriteText (path_join (site_dir_of demo_run_dir site_b) ''report.md'') demo_report,
         WriteText (path_join (site_dir_of demo_run_dir site_b) ''report.html'') demo_html,
         RunComplete demo_run_dir], None)"
    by (rule two_sites) (simp add: demo_grant demo_audit demo_analyze demo_fs)
  show ?thesis
    unfolding run by (simp add: demo_dirs demo_paths)
qed

text \<open>
  The claim as stated fails: the audit of \<open>site_a\<close> fails and is reported, then the
  directory of \<open>site_b\<close> cannot be created; the error is not caught, \<open>site_b\<close> and
  the site after it are not processed, the run directory is not reported, and the
  process ends with the error.
\<close>

theorem failed_mkdir_ends_run:
  "run_sites no_dir_world demo_args demo_run_dir [site_a, site_b]
     = ([MkDir dir_a, Announce Grant site_a, Announce Audit site_a,
         Failed Audit site_a (External ''exit 1'')], Some (External ''No space left on device''))
   \<and> main no_dir_world demo_args
     = ([MkDir ''/out'', MkDir ''/out/2026-01-01_09-00-00/logs'',
         MkDir dir_a, Announce Grant site_a, Announce Audit site_a,
         Failed Audit site_a (External ''exit 1'')],
        Uncaught (External ''No space left on device''))"
proof -
  have fs: "mkdir_err no_dir_world dir_a = None"
    "mkdir_err no_dir_world dir_b = Some (External ''No space left on device'')"
    "mkdir_err no_dir_world ''/out'' = None"
    "mkdir_err no_dir_world ''/out/2026-01-01_09-00-00/logs'' = None"
    by (simp_all add: no_dir_world_def dir_a_def dir_b_def)
  have a: "process_site no_dir_world demo_args demo_run_dir site_a
      = ([MkDir dir_a, Announce Grant site_a, Announce Audit site_a,
          Failed Audit site_a (External ''exit 1'')], None)"
    by (simp add: process_site_def site_stages_def demo_dirs fs demo_grant demo_audit)
  have b: "process_site no_dir_world demo_args demo_run_dir site_b
      = ([], Some (External ''No space left on device''))"
    by (simp add: process_site_def demo_dirs fs)
  have run: "run_sites no_dir_world demo_args demo_run_dir (site_a # site_b # rest)
     = ([MkDir dir_a, Announce Grant site_a, Announce Audit site_a,
         Failed Audit site_a (External ''exit 1'')], Some (External ''No space left on device''))"
    for rest
    by (simp add: a b)
  have sites: "collect_sites no_dir_world demo_args = Inr [site_a, site_b, site_c]"
    by (simp add: collect_sites_def sites_from_csv_def demo_args_def no_dir_world_def
        demo_world_def demo_rows_def strip_def strip_chars_def is_space_def
        site_a_def site_b_def site_c_def)
  have dirs: "out_root demo_args = ''/out''" "run_dir_of no_dir_world demo_args = demo_run_dir"
    "path_join demo_run_dir ''logs'' = ''/out/2026-01-01_09-00-00/logs''"
    "environ no_dir_world (pfx_pass_env demo_args) = Some ''secret''"
    by (simp_all add: demo_args_def run_dir_of_def no_dir_world_def demo_world_def path_join_def
        demo_run_dir_def)
  have "main no_dir_world demo_args
     = ([MkDir ''/out'', MkDir ''/out/2026-01-01_09-00-00/logs'',
         MkDir dir_a, Announce Grant site_a, Announce Audit site_a,
         Failed Audit site_a (External ''exit 1'')],
        Uncaught (External ''No space left on device''))"
    by (simp add: main_def dirs fs sites a b)
  with run [of "[]"] show ?thesis by simp
qed

text \<open>
  Claim C10, as amended. For every site the loop reaches, the first thing done is
  the creation of the site's directory, under the run directory, and the grant
  stage starts right after it; when the directory cannot be created no stage runs
  (the run ends). So a site whose grant or audit stage fails, or whose analysis
  itself raises, has had its directory created and has no report file, written
  or begun. A site whose analyze stage fails has its directory in every case; when
  the failure is in writing, a report may already be there.
\<close>

theorem site_dir_created_before_grant:
  "(\<forall>evs. process_site w a rd s = (evs, None)
        \<longrightarrow> take 2 evs = [MkDir (site_dir_of rd s), Announce Grant s])
   \<and> (\<forall>e. mkdir_err w (site_dir_of rd s) = Some e \<longrightarrow> process_site w a rd s = ([], Some e))
   \<and> site_dir_of rd s = path_join rd (''site-'' @ safe_name s)
   \<and> (\<forall>xs ys. (\<forall>x \<in> set (xs @ [s]). mkdir_err w (site_dir_of rd x) = None)
        \<longrightarrow> (\<exists>before after r. run_sites w a rd (xs @ s # ys)
              = (before @ [MkDir (site_dir_of rd s), Announce Grant s] @ after, r)))
   \<and> (\<forall>st e. (st = Grant \<or> st = Audit) \<and> Failed st s e \<in> set (fst (process_site w a rd s))
        \<longrightarrow> MkDir (site_dir_of rd s) \<in> set (fst (process_site w a rd s))
          \<and> (\<forall>p body. WriteText p body \<notin> set (fst (process_site w a rd s)))
          \<and> (\<forall>p e'. WriteFailed p e' \<notin> set (fst (process_site w a rd s))))
   \<and> (\<forall>json e. mkdir_err w (site_dir_of rd s) = None
          \<and> grant_sites_selected w s = Inr ()
          \<and> run_audit_script w s (internal_domains a) (site_dir_of rd s) = Inr json
          \<and> analyze w json DEFAULT_THRESHOLDS (internal_domains a \<noteq> []) = Inl e
        \<longrightarrow> process_site w a rd s
            = ([MkDir (site_dir_of rd s), Announce Grant s, Announce Audit s,
                Announce Analyze s, Failed Analyze s e], None))
   \<and> (\<forall>e. Failed Analyze s e \<in> set (fst (process_site w a rd s))
        \<longrightarrow> MkDir (site_dir_of rd s) \<in> set (fst (process_site w a rd s)))"
proof (intro conjI allI impI)
  fix evs assume "process_site w a rd s = (evs, None)"
  then show "take 2 evs = [MkDir (site_dir_of rd s), Announce Grant s]"
    by (auto simp: process_site_def site_stages_def split: option.splits)
next
  fix e assume "mkdir_err w (site_dir_of rd s) = Some e"
  then show "process_site w a rd s = ([], Some e)" by (rule process_site_no_dir)
next
  show "site_dir_of rd s = path_join rd (''site-'' @ safe_name s)"
    by (simp add: site_dir_of_def)
next
  fix xs ys assume ok: "\<forall>x \<in> set (xs @ [s]). mkdir_err w (site_dir_of rd x) = None"
  then have xs: "\<forall>x \<in> set xs. mkdir_err w (site_dir_of rd x) = None"
    and s: "mkdir_err w (site_dir_of rd s) = None" by simp_all
  obtain rest where ps: "process_site w a rd s
      = ([MkDir (site_dir_of rd s), Announce Grant s] @ rest, None)"
    by (simp add: process_site_cases [OF s])
  obtain more r where ys: "run_sites w a rd ys = (more, r)" by (cases "run_sites w a rd ys")
  have "run_sites w a rd (xs @ s # ys)
      = (concat (map (\<lambda>x. fst (process_site w a rd x)) xs)
           @ [MkDir (site_dir_of rd s), Announce Grant s] @ (rest @ more), r)"
    by (simp add: run_sites_prefix [OF xs] ps ys)
  then show "\<exists>before after r. run_sites w a rd (xs @ s # ys)
              = (before @ [MkDir (site_dir_of rd s), Announce Grant s] @ after, r)"
    by blast
next
  fix st e assume "(st = Grant \<or> st = Audit) \<and> Failed st s e \<in> set (fst (process_site w a rd s))"
  then show "MkDir (site_dir_of rd s) \<in> set (fst (process_site w a rd s))"
    by (blast intro: failed_has_dir)
next
  fix st e p body
  assume "(st = Grant \<or> st = Audit) \<and> Failed st s e \<in> set (fst (process_site w a rd s))"
  then show "WriteText p body \<notin> set (fst (process_site w a rd s))"
    using early_failure_no_write(1) by blast
next
  fix st e p e'
  assume "(st = Grant \<or> st = Audit) \<and> Failed st s e \<in> set (fst (process_site w a rd s))"
  then show "WriteFailed p e' \<notin> set (fst (process_site w a rd s))"
    using early_failure_no_write(2) by blast
next
  fix json e
  assume "mkdir_err w (site_dir_of rd s) = None
          \<and> grant_sites_selected w s = Inr ()
          \<and> run_audit_script w s (internal_domains a) (site_dir_of rd s) = Inr json
          \<and> analyze w json DEFAULT_THRESHOLDS (internal_domains a \<noteq> []) = Inl e"
  then show "process_site w a rd s
            = ([MkDir (site_dir_of rd s), Announce Grant s, Announce Audit s,
                Announce Analyze s, Failed Analyze s e], None)"
    by (simp add: process_site_cases)
next
  fix e assume "Failed Analyze s e \<in> set (fst (process_site w a rd s))"
  then show "MkDir (site_dir_of rd s) \<in> set (fst (process_site w a rd s))"
    by (rule failed_has_dir)
qed

theorem site_dir_created_before_grant_witness:
  "MkDir dir_a \<in> set (fst (process_site demo_world demo_args demo_run_dir site_a))
   \<and> Failed Audit site_a (External ''exit 1'')
     \<in> set (fst (process_site demo_world demo_args demo_run_dir site_a))
   \<and> (\<forall>p body. WriteText p body
     \<notin> set (fst (process_site demo_world demo_args demo_run_dir site_a)))
   \<and> (\<forall>p e. WriteFailed p e
     \<notin> set (fst (process_site demo_world demo_args demo_run_dir site_a)))
   \<and> take 2 (fst (process_site demo_world demo_args demo_run_dir site_a))
     = [MkDir dir_a, Announce Grant site_a]"
proof -
  have f: "Failed Audit site_a (External ''exit 1'')
     \<in> set (fst (process_site demo_world demo_args demo_run_dir site_a))"
    by (simp add: demo_process_a)
  note c10 = site_dir_created_before_grant [of demo_world demo_args demo_run_dir site_a]
  from c10 f have "MkDir (site_dir_of demo_run_dir site_a)
        \<in> set (fst (process_site demo_world demo_args demo_run_dir site_a))
     \<and> (\<forall>p body. WriteText p body
        \<notin> set (fst (process_site demo_world demo_args demo_run_dir site_a)))
     \<and> (\<forall>p e. WriteFailed p e
        \<notin> set (fst (process_site demo_world demo_args demo_run_dir site_a)))"
    by blast
  moreover from c10 demo_process_a
  have "take 2 (fst (process_site demo_world demo_args demo_run_dir site_a))
     = [MkDir (site_dir_of demo_run_dir site_a), Announce Grant site_a]"
    by (metis fst_conv)
  ultimately show ?thesis using f by (simp add: demo_dirs)
qed

text \<open>
  The claim as stated fails for the analyze stage: the hypertext report of
  \<open>site_b\<close> cannot be written, the stage is reported as failed, and the plain
  report is in the site's directory.
\<close>

theorem failed_analyze_leaves_report:
  "process_site no_html_world demo_args demo_run_dir site_b
   = ([MkDir dir_b, Announce Grant site_b, Announce Audit site_b, Announce Analyze site_b,
       WriteText (dir_b @ ''/report.md'') demo_report,
       WriteFailed (dir_b @ ''/report.html'') (External ''No space left on device''),
       Failed Analyze site_b (External ''No space left on device'')], None)"
proof -
  have fs: "mkdir_err no_html_world p = None"
    "write_err no_html_world (dir_b @ ''/report.md'') body = None"
    "write_err no_html_world (dir_b @ ''/report.html'') body
       = Some (External ''No space left on device'')" for p body
    by (simp_all add: no_html_world_def demo_world_def)
  show ?thesis
    by (simp add: process_site_def site_stages_def write_reports_def demo_dirs demo_paths
        demo_grant demo_audit demo_analyze fs)
qed

end
